theory Spec2Isabelle
  imports Complex_Main "HOL-Library.Word"
begin

unbundle bit_operations_syntax

section \<open>Data model\<close>

text \<open>
  The ocean simulator of the modifier layer (\<^verbatim>\<open>MOD_ocean.cc\<close>) and of the kernel
  (\<^verbatim>\<open>ocean.cc\<close>), as far as the code-flow document shows their code.
  C \<^verbatim>\<open>float\<close> and \<^verbatim>\<open>double\<close> values are modelled as \<^typ>\<open>real\<close>: rounding is not
  modelled, and every statement below is about which value is stored where, not about
  precision. A C \<^verbatim>\<open>int\<close> is an \<^typ>\<open>int\<close>, with the 32-bit wrap-around written out where
  the code multiplies; a C \<^verbatim>\<open>short\<close> is a \<^typ>\<open>16 word\<close>, tested against zero as C does.
\<close>

type_synonym fftw_complex = complex

type_synonym float3 = "real \<times> real \<times> real"

text \<open>The scalar parameters that \<^verbatim>\<open>BKE_ocean_init\<close> receives and the spectrum reads.\<close>

record ocean_params =
  p_Lx :: real
  p_Lz :: real
  p_V :: real
  p_l :: real
  p_A :: real
  p_w :: real
  p_damp :: real
  p_alignment :: real
  p_depth :: real
  p_time :: real
  p_spectrum :: int
  p_fetch_jonswap :: real
  p_sharpen_peak_jonswap :: real

text \<open>The spatial grids one simulation step may compute, one per transform call.\<close>

datatype ocean_field =
  Disp_y | Disp_x | Disp_z | Jxx | Jzz | Jxz | Normal_x | Normal_z

text \<open>
  \<^verbatim>\<open>struct Ocean\<close>. Arrays are stores from index to value: an index that was never
  written has no entry, as in memory that \<^verbatim>\<open>MEM_callocN\<close> left as a null pointer.
\<close>

record Ocean =
  o_M :: int
  o_N :: int
  o_params :: ocean_params
  o_kx :: "nat \<Rightarrow> real"
  o_kz :: "nat \<Rightarrow> real"
  o_h0 :: "nat \<rightharpoonup> fftw_complex"
  o_htilda :: "nat \<rightharpoonup> fftw_complex"
  o_do_disp_y :: "16 word"
  o_do_chop :: "16 word"
  o_do_spray :: "16 word"
  o_do_normals :: "16 word"
  o_do_jacobian :: "16 word"
  o_grids :: "ocean_field \<rightharpoonup> (nat \<Rightarrow> real)"

text \<open>
  The frame cache: one record per baked frame number, each with the displacement, the
  normal and the foam samples of the grid.
\<close>

record FrameCacheRecord =
  rec_disp :: "float3 list"
  rec_normal :: "float3 list"
  rec_foam :: "real list"

record OceanCache =
  och_M :: nat
  och_N :: nat
  och_frames :: "int \<rightharpoonup> FrameCacheRecord"

datatype cache_error = NotBaked

record OceanModifierData =
  resolution :: int
  spatial_size :: int
  wind_velocity :: real
  smallest_wave :: real
  wave_alignment :: real
  depth :: real
  wave_direction :: real
  chop_amount :: real
  damp :: real
  time :: real
  spectrum :: int
  fetch_jonswap :: real
  sharpen_peak_jonswap :: real
  flag :: "32 word"
  seed :: int
  scale :: real
  location :: float3
  cached :: bool
  ocean :: Ocean
  oceancache :: OceanCache

text \<open>
  What the shown code calls and does not define: the generator behind \<^verbatim>\<open>rng\<close> and
  \<^verbatim>\<open>gaussRand\<close>, the spectrum \<^verbatim>\<open>Ph\<close>, the wavenumber tables \<^verbatim>\<open>_kx\<close>, \<^verbatim>\<open>_kz\<close>, the flag
  constants, the variable \<^verbatim>\<open>do_spray\<close>, and the transforms of the simulation step
  (\<^verbatim>\<open>ocean_compute_displacement_y\<close> and its siblings, which receive the ocean with the
  current amplitudes, \<^verbatim>\<open>scale\<close> and \<^verbatim>\<open>chop_amount\<close>, and yield a grid).
  The last four serve the parts modelled from the specification: the constant \<open>g\<close> of
  the dispersion relation, the place where the amplitude of the mirrored wavenumber
  \<open>-k\<close> is stored, and the two formulas the specification leaves open (the normal
  built from the two slope grids, the foam built from the three jacobian grids).
  They are parameters of the model; nothing is assumed about them.
\<close>

record 'rng ocean_externals =
  rng_new :: "int \<Rightarrow> 'rng"
  gaussRand :: "'rng \<Rightarrow> real \<times> 'rng"
  Ph :: "ocean_params \<Rightarrow> real \<Rightarrow> real \<Rightarrow> real"
  wavenumbers :: "int \<Rightarrow> real \<Rightarrow> nat \<Rightarrow> real"
  MOD_OCEAN_GENERATE_NORMALS :: "32 word"
  MOD_OCEAN_GENERATE_FOAM :: "32 word"
  do_spray :: "OceanModifierData \<Rightarrow> 16 word"
  ocean_compute :: "ocean_field \<Rightarrow> Ocean \<Rightarrow> real \<Rightarrow> real \<Rightarrow> nat \<Rightarrow> real"
  gravity :: real
  minus_k_index :: "Ocean \<Rightarrow> nat \<Rightarrow> nat \<Rightarrow> nat"
  normal_of :: "real \<Rightarrow> real \<Rightarrow> float3"
  foam_of :: "real \<Rightarrow> real \<Rightarrow> real \<Rightarrow> real"

section \<open>Creation and initialisation\<close>

text \<open>\<^verbatim>\<open>BKE_ocean_add\<close>: the structure comes from \<^verbatim>\<open>MEM_callocN\<close>, every field zero.\<close>

definition BKE_ocean_add :: Ocean where
  "BKE_ocean_add =
     \<lparr>o_M = 0, o_N = 0,
      o_params = \<lparr>p_Lx = 0, p_Lz = 0, p_V = 0, p_l = 0, p_A = 0, p_w = 0, p_damp = 0,
                  p_alignment = 0, p_depth = 0, p_time = 0, p_spectrum = 0,
                  p_fetch_jonswap = 0, p_sharpen_peak_jonswap = 0\<rparr>,
      o_kx = (\<lambda>_. 0), o_kz = (\<lambda>_. 0),
      o_h0 = Map.empty, o_htilda = Map.empty,
      o_do_disp_y = 0, o_do_chop = 0, o_do_spray = 0, o_do_normals = 0, o_do_jacobian = 0,
      o_grids = Map.empty\<rparr>"

text \<open>
  Modelled from the spec: the helper \<^verbatim>\<open>mul_complex_f(res, cmpl, f)\<close> is called by the
  synthesis loop and its body is not shown; the specification has the loop "scale the
  complex pair by" the real factor.
\<close>

definition mul_complex_f :: "fftw_complex \<Rightarrow> real \<Rightarrow> fftw_complex" where
  "mul_complex_f cmpl f = Complex (Re cmpl * f) (Im cmpl * f)"

text \<open>
  The body of the synthesis loop of \<^verbatim>\<open>BKE_ocean_init\<close>: two draws \<^verbatim>\<open>r1\<close>, \<^verbatim>\<open>r2\<close>, then
  \<^verbatim>\<open>mul_complex_f(o->_h0[i * o->_N + j], r1r2, sqrt(Ph(o, o->_kx[i], o->_kz[j]) / 2.0f))\<close>,
  with \<^verbatim>\<open>r1r2\<close> the complex number of the two draws. The loop state is the generator
  and the array. Of the ocean \<^verbatim>\<open>o\<close> that \<^verbatim>\<open>Ph\<close> receives, the model hands over the scalar
  parameters: the spectrum does not read the arrays.
\<close>

definition h0_entry ::
  "'rng ocean_externals \<Rightarrow> Ocean \<Rightarrow> nat \<Rightarrow> nat \<Rightarrow>
   'rng \<times> (nat \<rightharpoonup> fftw_complex) \<Rightarrow> 'rng \<times> (nat \<rightharpoonup> fftw_complex)" where
  "h0_entry E oc i j st =
     (let (rng, h0) = st;
          (r1, rng1) = gaussRand E rng;
          (r2, rng2) = gaussRand E rng1;
          r1r2 = Complex r1 r2
      in (rng2,
          h0(i * nat (o_N oc) + j \<mapsto>
             mul_complex_f r1r2 (sqrt (Ph E (o_params oc) (o_kx oc i) (o_kz oc j) / 2)))))"

text \<open>\<^verbatim>\<open>for (j = 0; j < o->_N; j++)\<close> and \<^verbatim>\<open>for (i = 0; i < o->_M; i++)\<close>.\<close>

definition h0_row ::
  "'rng ocean_externals \<Rightarrow> Ocean \<Rightarrow> nat \<Rightarrow>
   'rng \<times> (nat \<rightharpoonup> fftw_complex) \<Rightarrow> 'rng \<times> (nat \<rightharpoonup> fftw_complex)" where
  "h0_row E oc i st = fold (h0_entry E oc i) [0..<nat (o_N oc)] st"

definition h0_fill ::
  "'rng ocean_externals \<Rightarrow> Ocean \<Rightarrow>
   'rng \<times> (nat \<rightharpoonup> fftw_complex) \<Rightarrow> 'rng \<times> (nat \<rightharpoonup> fftw_complex)" where
  "h0_fill E oc st = fold (h0_row E oc) [0..<nat (o_M oc)] st"

text \<open>
  \<^verbatim>\<open>BKE_ocean_init\<close>, with its arguments in the order of the call in
  \<^verbatim>\<open>BKE_ocean_init_from_modifier\<close>. The document shows its synthesis loop. Before the
  loop the arguments go to the fields that the loop and the simulation step read
  (\<^verbatim>\<open>_M\<close>, \<^verbatim>\<open>_N\<close>, the parameters, the tables \<^verbatim>\<open>_kx\<close> and \<^verbatim>\<open>_kz\<close>, the feature flags, as
  the debug log of the initialisation prints them), and \<^verbatim>\<open>rng\<close> is the generator seeded
  from the argument \<^verbatim>\<open>seed\<close>. The \<^verbatim>\<open>bool\<close> it returns is not modelled: the document
  does not show how it is computed.
\<close>

definition BKE_ocean_init ::
  "'rng ocean_externals \<Rightarrow> Ocean \<Rightarrow> int \<Rightarrow> int \<Rightarrow> real \<Rightarrow> real \<Rightarrow> real \<Rightarrow> real \<Rightarrow> real \<Rightarrow>
   real \<Rightarrow> real \<Rightarrow> real \<Rightarrow> real \<Rightarrow> real \<Rightarrow> int \<Rightarrow> real \<Rightarrow> real \<Rightarrow>
   16 word \<Rightarrow> 16 word \<Rightarrow> 16 word \<Rightarrow> 16 word \<Rightarrow> 16 word \<Rightarrow> int \<Rightarrow> Ocean" where
  "BKE_ocean_init E oc M N Lx Lz V l A w damp' alignment depth' time' spectrum'
       fetch_jonswap' sharpen_peak_jonswap'
       do_height_field do_chop do_spray' do_normals do_jacobian seed' =
     (let o1 = oc\<lparr>o_M := M, o_N := N,
                 o_params := \<lparr>p_Lx = Lx, p_Lz = Lz, p_V = V, p_l = l, p_A = A, p_w = w,
                              p_damp = damp', p_alignment = alignment, p_depth = depth',
                              p_time = time', p_spectrum = spectrum',
                              p_fetch_jonswap = fetch_jonswap',
                              p_sharpen_peak_jonswap = sharpen_peak_jonswap'\<rparr>,
                 o_kx := wavenumbers E M Lx, o_kz := wavenumbers E N Lz,
                 o_do_disp_y := do_height_field, o_do_chop := do_chop,
                 o_do_spray := do_spray', o_do_normals := do_normals,
                 o_do_jacobian := do_jacobian\<rparr>;
          rng = rng_new E seed'
      in o1\<lparr>o_h0 := snd (h0_fill E o1 (rng, o_h0 o1))\<rparr>)"

text \<open>
  \<^verbatim>\<open>resolution * resolution\<close> on a 32-bit \<^verbatim>\<open>int\<close>: the product, wrapped to 32 bits
  in two's complement.
\<close>

definition int_mul :: "int \<Rightarrow> int \<Rightarrow> int" where
  "int_mul a b = signed_take_bit 31 (a * b)"

definition short_of_bool :: "bool \<Rightarrow> 16 word" where
  "short_of_bool b = (if b then 1 else 0)"

text \<open>
  \<^verbatim>\<open>BKE_ocean_init_from_modifier\<close>. The flags are C \<^verbatim>\<open>short\<close>s: the height field is
  always requested, chop follows the sign of \<^verbatim>\<open>chop_amount\<close>, normals and foam are the
  masked bits of \<^verbatim>\<open>omd->flag\<close> narrowed to 16 bits.
\<close>

definition BKE_ocean_init_from_modifier ::
  "'rng ocean_externals \<Rightarrow> Ocean \<Rightarrow> OceanModifierData \<Rightarrow> int \<Rightarrow> Ocean" where
  "BKE_ocean_init_from_modifier E ocean' omd resolution' =
     (let do_heightfield = short_of_bool True;
          do_chop = short_of_bool (chop_amount omd > 0);
          do_normals = (ucast (flag omd AND MOD_OCEAN_GENERATE_NORMALS E) :: 16 word);
          do_jacobian = (ucast (flag omd AND MOD_OCEAN_GENERATE_FOAM E) :: 16 word)
      in BKE_ocean_init E ocean'
           (int_mul resolution' resolution')
           (int_mul resolution' resolution')
           (real_of_int (spatial_size omd))
           (real_of_int (spatial_size omd))
           (wind_velocity omd)
           (smallest_wave omd)
           1
           (wave_direction omd)
           (damp omd)
           (wave_alignment omd)
           (depth omd)
           (time omd)
           (spectrum omd)
           (fetch_jonswap omd)
           (sharpen_peak_jonswap omd)
           do_heightfield
           do_chop
           (do_spray E omd)
           do_normals
           do_jacobian
           (seed omd))"

text \<open>
  \<^verbatim>\<open>init_data\<close> of the modifier: the defaults the document lists, then a fresh ocean
  initialised from them. The defaults it elides keep the value they had.
\<close>

definition init_data :: "'rng ocean_externals \<Rightarrow> OceanModifierData \<Rightarrow> OceanModifierData" where
  "init_data E md =
     (let omd = md\<lparr>resolution := 7, spatial_size := 50, wind_velocity := 30,
                   smallest_wave := 1 / 100, wave_alignment := 0, depth := 200,
                   wave_direction := 0, chop_amount := 1\<rparr>
      in omd\<lparr>ocean := BKE_ocean_init_from_modifier E BKE_ocean_add omd (resolution omd)\<rparr>)"

section \<open>The generator, as a stream of draws\<close>

text \<open>
  The generator after \<open>k\<close> calls of \<^verbatim>\<open>gaussRand\<close>, and the value the next call returns.
\<close>

definition rng_after :: "'rng ocean_externals \<Rightarrow> 'rng \<Rightarrow> nat \<Rightarrow> 'rng" where
  "rng_after E rng k = ((\<lambda>r. snd (gaussRand E r)) ^^ k) rng"

definition draw :: "'rng ocean_externals \<Rightarrow> 'rng \<Rightarrow> nat \<Rightarrow> real" where
  "draw E rng k = fst (gaussRand E (rng_after E rng k))"

text \<open>
  The amplitude the synthesis loop stores for row \<open>i\<close> and column \<open>j\<close> when the generator
  was \<open>rng0\<close> at loop entry: the draws number \<open>2k\<close> and \<open>2k + 1\<close> for \<open>k = i * N + j\<close>.
\<close>

definition h0_value ::
  "'rng ocean_externals \<Rightarrow> Ocean \<Rightarrow> 'rng \<Rightarrow> nat \<Rightarrow> nat \<Rightarrow> fftw_complex" where
  "h0_value E oc rng0 i j =
     (let k = i * nat (o_N oc) + j
      in mul_complex_f (Complex (draw E rng0 (2 * k)) (draw E rng0 (2 * k + 1)))
           (sqrt (Ph E (o_params oc) (o_kx oc i) (o_kz oc j) / 2)))"

text \<open>The number of entries of a half-spectrum array, \<^verbatim>\<open>M * (1 + N/2)\<close>.\<close>

definition half_spectrum_size :: "nat \<Rightarrow> nat \<Rightarrow> nat" where
  "half_spectrum_size M N = M * (1 + N div 2)"

section \<open>The simulation step\<close>

text \<open>
  Modelled from the spec: \<^verbatim>\<open>ocean_compute_htilda\<close> is named by the simulation step and
  its body is not shown. The specification has "For each wavenumber, compute angular
  frequency \<open>omega(k)\<close> from the dispersion relation, then
  \<open>h(k,t) = h0(k)*e^{i*omega*t} + conj(h0(-k))*e^{-i*omega*t}\<close>", over the half-spectrum
  columns \<open>0 .. N/2\<close> of a row, with \<open>omega^2 = g*k*tanh(k*depth)\<close> and \<open>k\<close> the magnitude
  of \<open>(kx, kz)\<close>. The exponential of an imaginary number is written as the code would
  compute it, from cosine and sine. An entry whose operands were never written is left
  unwritten: the model invents no value for such a read.
\<close>

definition omega :: "'rng ocean_externals \<Rightarrow> Ocean \<Rightarrow> nat \<Rightarrow> nat \<Rightarrow> real" where
  "omega E oc i j =
     (let k = sqrt ((o_kx oc i)\<^sup>2 + (o_kz oc j)\<^sup>2)
      in sqrt (gravity E * k * tanh (k * p_depth (o_params oc))))"

text \<open>
  Modelled from the spec: the amplitude \<open>h(k,t)\<close> of one wavenumber, the value that the
  missing body of \<^verbatim>\<open>ocean_compute_htilda\<close> stores.
\<close>

definition htilda_value ::
  "'rng ocean_externals \<Rightarrow> Ocean \<Rightarrow> real \<Rightarrow> nat \<Rightarrow> nat \<Rightarrow> fftw_complex option" where
  "htilda_value E oc t i j =
     (case (o_h0 oc (i * nat (o_N oc) + j), o_h0 oc (minus_k_index E oc i j)) of
        (Some h0_k, Some h0_minus_k) \<Rightarrow>
          Some (h0_k * Complex (cos (omega E oc i j * t)) (sin (omega E oc i j * t)) +
                cnj h0_minus_k *
                  Complex (cos (- (omega E oc i j * t))) (sin (- (omega E oc i j * t))))
      | _ \<Rightarrow> None)"

text \<open>
  Modelled from the spec: the store of one amplitude into the half-spectrum array
  \<^verbatim>\<open>_htilda\<close>, row stride \<open>1 + N/2\<close>; part of the missing body of
  \<^verbatim>\<open>ocean_compute_htilda\<close>.
\<close>

definition htilda_entry ::
  "'rng ocean_externals \<Rightarrow> Ocean \<Rightarrow> real \<Rightarrow> nat \<Rightarrow> nat \<Rightarrow>
   (nat \<rightharpoonup> fftw_complex) \<Rightarrow> (nat \<rightharpoonup> fftw_complex)" where
  "htilda_entry E oc t i j ht =
     (case htilda_value E oc t i j of
        Some h \<Rightarrow> ht(i * (1 + nat (o_N oc) div 2) + j \<mapsto> h)
      | None \<Rightarrow> ht)"

text \<open>
  Modelled from the spec: \<^verbatim>\<open>ocean_compute_htilda\<close> for one row, the function that
  \<^verbatim>\<open>BLI_task_parallel_range\<close> runs on every row; its body is not shown.
\<close>

definition ocean_compute_htilda ::
  "'rng ocean_externals \<Rightarrow> Ocean \<Rightarrow> real \<Rightarrow> nat \<Rightarrow>
   (nat \<rightharpoonup> fftw_complex) \<Rightarrow> (nat \<rightharpoonup> fftw_complex)" where
  "ocean_compute_htilda E oc t i ht =
     fold (htilda_entry E oc t i) [0..<1 + nat (o_N oc) div 2] ht"

text \<open>One transform call of phase 2: the grid of the field is replaced.\<close>

definition compute_grid ::
  "'rng ocean_externals \<Rightarrow> ocean_field \<Rightarrow> real \<Rightarrow> real \<Rightarrow> Ocean \<Rightarrow> Ocean" where
  "compute_grid E fld scale' chop_amount' oc =
     oc\<lparr>o_grids := (o_grids oc)(fld \<mapsto> ocean_compute E fld oc scale' chop_amount')\<rparr>"

text \<open>
  \<^verbatim>\<open>BKE_ocean_simulate\<close>: phase 1 runs \<^verbatim>\<open>ocean_compute_htilda\<close> on the rows
  \<open>0 .. M - 1\<close>; phase 2 runs the transforms of the enabled features, in the order of
  the code.
\<close>

definition BKE_ocean_simulate ::
  "'rng ocean_externals \<Rightarrow> Ocean \<Rightarrow> real \<Rightarrow> real \<Rightarrow> real \<Rightarrow> Ocean" where
  "BKE_ocean_simulate E oc t scale' chop_amount' =
     (let o1 = oc\<lparr>o_htilda :=
                   fold (ocean_compute_htilda E oc t) [0..<nat (o_M oc)] (o_htilda oc)\<rparr>;
          o2 = (if o_do_disp_y o1 \<noteq> 0
                then compute_grid E Disp_y scale' chop_amount' o1 else o1);
          o3 = (if o_do_chop o2 \<noteq> 0
                then compute_grid E Disp_z scale' chop_amount'
                       (compute_grid E Disp_x scale' chop_amount' o2)
                else o2);
          o4 = (if o_do_jacobian o3 \<noteq> 0
                then compute_grid E Jxz scale' chop_amount'
                       (compute_grid E Jzz scale' chop_amount'
                          (compute_grid E Jxx scale' chop_amount' o3))
                else o3);
          o5 = (if o_do_normals o4 \<noteq> 0
                then compute_grid E Normal_z scale' chop_amount'
                       (compute_grid E Normal_x scale' chop_amount' o4)
                else o4)
      in o5)"

text \<open>The ocean between the two phases of a step: the amplitudes of time \<open>t\<close> are in place.\<close>

definition simulate_htilda :: "'rng ocean_externals \<Rightarrow> Ocean \<Rightarrow> real \<Rightarrow> Ocean" where
  "simulate_htilda E oc t =
     oc\<lparr>o_htilda := fold (ocean_compute_htilda E oc t) [0..<nat (o_M oc)] (o_htilda oc)\<rparr>"

text \<open>The transforms one step runs on an ocean, in order, as its flags select them.\<close>

definition simulate_transforms :: "Ocean \<Rightarrow> ocean_field list" where
  "simulate_transforms oc =
     (if o_do_disp_y oc \<noteq> 0 then [Disp_y] else []) @
     (if o_do_chop oc \<noteq> 0 then [Disp_x, Disp_z] else []) @
     (if o_do_jacobian oc \<noteq> 0 then [Jxx, Jzz, Jxz] else []) @
     (if o_do_normals oc \<noteq> 0 then [Normal_x, Normal_z] else [])"

section \<open>The frame cache and the choice of the modifier\<close>

text \<open>
  Modelled from the spec: the loader of baked frames (\<^verbatim>\<open>BKE_ocean_simulate_cache\<close> in
  the call of the modifier) is not shown. The specification has
  "\<open>load_frame(cache, frame) -> SpatialField-set\<close> fails with \<open>NotBaked\<close> if the frame
  file is absent or malformed, never returns partially-initialized fields", with one
  record per frame number "holding \<open>M\<times>N\<close> samples for each enabled channel". A record is
  malformed when one of its channels does not hold \<open>M * N\<close> samples.
\<close>

definition record_complete :: "OceanCache \<Rightarrow> FrameCacheRecord \<Rightarrow> bool" where
  "record_complete och r =
     (length (rec_disp r) = och_M och * och_N och \<and>
      length (rec_normal r) = och_M och * och_N och \<and>
      length (rec_foam r) = och_M och * och_N och)"

text \<open>
  Modelled from the spec: \<open>load_frame\<close>, the missing loader; the result is a value of a
  sum type, the error on the left.
\<close>

definition load_frame :: "OceanCache \<Rightarrow> int \<Rightarrow> cache_error + FrameCacheRecord" where
  "load_frame och f =
     (case och_frames och f of
        None \<Rightarrow> Inl NotBaked
      | Some r \<Rightarrow> if record_complete och r then Inr r else Inl NotBaked)"

text \<open>
  \<^verbatim>\<open>simulate_ocean_modifier\<close>: the modifier picks live simulation or cache replay by
  \<^verbatim>\<open>omd->cached\<close> alone. The function is \<^verbatim>\<open>void\<close> and the cache branch calls the loader
  as a statement, so whatever the loader yields is dropped and the modifier data stay as
  they are; \<^verbatim>\<open>frame\<close> is an argument here, the document does not show where it comes
  from.
\<close>

definition simulate_ocean_modifier ::
  "'rng ocean_externals \<Rightarrow> OceanModifierData \<Rightarrow> int \<Rightarrow> OceanModifierData" where
  "simulate_ocean_modifier E omd frame =
     (if \<not> cached omd
      then omd\<lparr>ocean := BKE_ocean_simulate E (ocean omd) (time omd) (scale omd)
                            (chop_amount omd)\<rparr>
      else (let loaded = load_frame (oceancache omd) frame in omd))"

section \<open>Grid evaluation\<close>

text \<open>\<^verbatim>\<open>OceanResult\<close>: what an evaluation hands to the mesh code.\<close>

record OceanResult =
  disp :: float3
  normal :: float3
  foam :: real

definition neutral_result :: OceanResult where
  "neutral_result = \<lparr>disp = (0, 0, 0), normal = (0, 1, 0), foam = 0\<rparr>"

text \<open>
  Modelled from the spec: \<^verbatim>\<open>BKE_ocean_eval_ij\<close> and \<^verbatim>\<open>BKE_ocean_eval_uv\<close> are called by
  the mesh code and their bodies are not shown. The specification has
  "\<open>eval_grid(i,j)\<close> ... with
  periodic wraparound (\<open>i mod M\<close>, \<open>j mod N\<close>)"; "\<open>eval_uv(u,v)\<close> maps continuous
  \<open>(u,v)\<close> to fractional grid coordinates, applies periodic wrap, and bilinearly
  interpolates the four surrounding \<open>eval_grid\<close> samples for every enabled output
  channel independently"; "Displacement/normal outputs for disabled feature flags must
  return a well-defined neutral value (zero displacement, up-normal, zero foam)".
  A grid that was never computed reads as zero.
\<close>

text \<open>
  Modelled from the spec: the read of one sample of a spatial grid by the missing
  evaluators.
\<close>

definition grid_at :: "Ocean \<Rightarrow> ocean_field \<Rightarrow> nat \<Rightarrow> real" where
  "grid_at oc fld idx = (case o_grids oc fld of None \<Rightarrow> 0 | Some g \<Rightarrow> g idx)"

text \<open>
  Modelled from the spec: \<^verbatim>\<open>BKE_ocean_eval_ij\<close>, whose body is not shown; every channel
  of a disabled feature gets its neutral value.
\<close>

definition BKE_ocean_eval_ij :: "'rng ocean_externals \<Rightarrow> Ocean \<Rightarrow> int \<Rightarrow> int \<Rightarrow> OceanResult" where
  "BKE_ocean_eval_ij E oc i j =
     (let idx = nat (i mod o_M oc) * nat (o_N oc) + nat (j mod o_N oc)
      in \<lparr>disp =
            (if o_do_chop oc \<noteq> 0 then grid_at oc Disp_x idx else 0,
             if o_do_disp_y oc \<noteq> 0 then grid_at oc Disp_y idx else 0,
             if o_do_chop oc \<noteq> 0 then grid_at oc Disp_z idx else 0),
          normal =
            (if o_do_normals oc \<noteq> 0
             then normal_of E (grid_at oc Normal_x idx) (grid_at oc Normal_z idx)
             else (0, 1, 0)),
          foam =
            (if o_do_jacobian oc \<noteq> 0
             then foam_of E (grid_at oc Jxx idx) (grid_at oc Jzz idx) (grid_at oc Jxz idx)
             else 0)\<rparr>)"

text \<open>
  Modelled from the spec: linear and bilinear interpolation, used by the missing
  \<^verbatim>\<open>BKE_ocean_eval_uv\<close>.
\<close>

definition interpf :: "real \<Rightarrow> real \<Rightarrow> real \<Rightarrow> real" where
  "interpf a b t = (1 - t) * a + t * b"

definition bilerp :: "real \<Rightarrow> real \<Rightarrow> real \<Rightarrow> real \<Rightarrow> real \<Rightarrow> real \<Rightarrow> real" where
  "bilerp f00 f10 f01 f11 fx fz = interpf (interpf f00 f10 fx) (interpf f01 f11 fx) fz"

fun c0 :: "float3 \<Rightarrow> real" where "c0 (x, y, z) = x"

fun c1 :: "float3 \<Rightarrow> real" where "c1 (x, y, z) = y"

fun c2 :: "float3 \<Rightarrow> real" where "c2 (x, y, z) = z"

text \<open>
  Modelled from the spec: \<^verbatim>\<open>BKE_ocean_eval_uv\<close>, whose body is not shown; the four
  surrounding grid samples are interpolated for each enabled channel.
\<close>

definition BKE_ocean_eval_uv :: "'rng ocean_externals \<Rightarrow> Ocean \<Rightarrow> real \<Rightarrow> real \<Rightarrow> OceanResult" where
  "BKE_ocean_eval_uv E oc u v =
     (let uu = u * real_of_int (o_M oc);
          vv = v * real_of_int (o_N oc);
          i0 = \<lfloor>uu\<rfloor>;
          j0 = \<lfloor>vv\<rfloor>;
          fx = uu - real_of_int i0;
          fz = vv - real_of_int j0;
          r00 = BKE_ocean_eval_ij E oc i0 j0;
          r10 = BKE_ocean_eval_ij E oc (i0 + 1) j0;
          r01 = BKE_ocean_eval_ij E oc i0 (j0 + 1);
          r11 = BKE_ocean_eval_ij E oc (i0 + 1) (j0 + 1);
          chan = (\<lambda>f. bilerp (f r00) (f r10) (f r01) (f r11) fx fz)
      in \<lparr>disp =
            (if o_do_chop oc \<noteq> 0 then chan (c0 \<circ> disp) else 0,
             if o_do_disp_y oc \<noteq> 0 then chan (c1 \<circ> disp) else 0,
             if o_do_chop oc \<noteq> 0 then chan (c2 \<circ> disp) else 0),
          normal =
            (if o_do_normals oc \<noteq> 0
             then (chan (c0 \<circ> normal), chan (c1 \<circ> normal), chan (c2 \<circ> normal))
             else (0, 1, 0)),
          foam = (if o_do_jacobian oc \<noteq> 0 then chan foam else 0)\<rparr>)"

section \<open>Displacing a mesh\<close>

text \<open>
  The displace-mode loop of the modifier. The result structure \<^verbatim>\<open>ocr\<close> is one local
  variable that every iteration hands to the evaluator, so the model threads it; the
  evaluator is an argument, since the loop itself does not depend on what it computes.
\<close>

definition displace_vertex ::
  "(Ocean \<Rightarrow> OceanResult \<Rightarrow> real \<Rightarrow> real \<Rightarrow> OceanResult) \<Rightarrow> OceanModifierData \<Rightarrow>
   OceanResult \<Rightarrow> float3 \<Rightarrow> float3 \<times> OceanResult" where
  "displace_vertex ev omd ocr co =
     (let u = (c0 co - c0 (location omd)) / real_of_int (spatial_size omd);
          v = (c2 co - c2 (location omd)) / real_of_int (spatial_size omd);
          ocr' = ev (ocean omd) ocr u v
      in ((c0 co, c1 co + c1 (disp ocr') * scale omd, c2 co), ocr'))"

fun displace_ocean_mesh ::
  "(Ocean \<Rightarrow> OceanResult \<Rightarrow> real \<Rightarrow> real \<Rightarrow> OceanResult) \<Rightarrow> OceanModifierData \<Rightarrow>
   OceanResult \<Rightarrow> float3 list \<Rightarrow> float3 list" where
  "displace_ocean_mesh ev omd ocr [] = []"
| "displace_ocean_mesh ev omd ocr (co # verts) =
     (let (co', ocr') = displace_vertex ev omd ocr co
      in co' # displace_ocean_mesh ev omd ocr' verts)"

text \<open>The result structure as the evaluator leaves it at each vertex, in order.\<close>

fun eval_results ::
  "(Ocean \<Rightarrow> OceanResult \<Rightarrow> real \<Rightarrow> real \<Rightarrow> OceanResult) \<Rightarrow> OceanModifierData \<Rightarrow>
   OceanResult \<Rightarrow> float3 list \<Rightarrow> OceanResult list" where
  "eval_results ev omd ocr [] = []"
| "eval_results ev omd ocr (co # verts) =
     (let ocr' = snd (displace_vertex ev omd ocr co)
      in ocr' # eval_results ev omd ocr' verts)"

section \<open>Baking\<close>

text \<open>
  The bake loop of \<^verbatim>\<open>BKE_ocean_bake\<close>. For one frame it simulates, evaluates every grid
  point with \<^verbatim>\<open>y\<close> in the outer and \<^verbatim>\<open>x\<close> in the inner loop, and fills the displacement,
  foam and normal buffers; the buffers are lists in the order of the loops. The grid
  size is that of the cache. The document shows neither how \<^verbatim>\<open>time\<close> follows from the
  frame number nor the encoding of the files: the first is the argument \<open>time_of\<close>, and
  writing the files of a frame is storing its record under the frame number.
\<close>

definition grid_samples ::
  "(OceanResult \<Rightarrow> 'a) \<Rightarrow> 'rng ocean_externals \<Rightarrow> Ocean \<Rightarrow> nat \<Rightarrow> nat \<Rightarrow> 'a list" where
  "grid_samples chan E oc res_x res_y =
     concat (map (\<lambda>y. map (\<lambda>x. chan (BKE_ocean_eval_ij E oc (int x) (int y))) [0..<res_x])
                 [0..<res_y])"

definition bake_record ::
  "'rng ocean_externals \<Rightarrow> Ocean \<Rightarrow> nat \<Rightarrow> nat \<Rightarrow> FrameCacheRecord" where
  "bake_record E oc res_x res_y =
     \<lparr>rec_disp = grid_samples disp E oc res_x res_y,
      rec_normal = grid_samples normal E oc res_x res_y,
      rec_foam = grid_samples foam E oc res_x res_y\<rparr>"

definition bake_frame ::
  "'rng ocean_externals \<Rightarrow> (int \<Rightarrow> real) \<Rightarrow> real \<Rightarrow> real \<Rightarrow> int \<Rightarrow>
   Ocean \<times> OceanCache \<Rightarrow> Ocean \<times> OceanCache" where
  "bake_frame E time_of scale' chop f st =
     (let (oc, och) = st;
          oc' = BKE_ocean_simulate E oc (time_of f) scale' chop
      in (oc', och\<lparr>och_frames :=
                     (och_frames och)(f \<mapsto> bake_record E oc' (och_M och) (och_N och))\<rparr>))"

text \<open>\<^verbatim>\<open>for (f = start; f <= end; f++)\<close>, on the ocean and the cache.\<close>

definition BKE_ocean_bake ::
  "'rng ocean_externals \<Rightarrow> (int \<Rightarrow> real) \<Rightarrow> real \<Rightarrow> real \<Rightarrow> int \<Rightarrow> int \<Rightarrow>
   Ocean \<times> OceanCache \<Rightarrow> Ocean \<times> OceanCache" where
  "BKE_ocean_bake E time_of scale' chop bakestart bakeend st =
     fold (bake_frame E time_of scale' chop) [bakestart..bakeend] st"

text \<open>
  The other side of the round trip, in the words of the specification: "directly
  simulating at the corresponding time and evaluating" one grid point.
\<close>

definition live_sample ::
  "'rng ocean_externals \<Rightarrow> Ocean \<Rightarrow> real \<Rightarrow> real \<Rightarrow> real \<Rightarrow> int \<Rightarrow> int \<Rightarrow> OceanResult" where
  "live_sample E oc t scale' chop i j =
     BKE_ocean_eval_ij E (BKE_ocean_simulate E oc t scale' chop) i j"

text \<open>
  A contract for the parameters that stand for the missing transforms: they read the
  amplitudes and the settings of the ocean, not the spatial grids of an earlier step,
  and the place of the mirrored wavenumber does not depend on the fields of a step.
\<close>

definition transforms_read_amplitudes :: "'rng ocean_externals \<Rightarrow> bool" where
  "transforms_read_amplitudes E =
     ((\<forall>fld oc g s c.
         ocean_compute E fld (oc\<lparr>o_grids := g\<rparr>) s c = ocean_compute E fld oc s c) \<and>
      (\<forall>oc h g i j.
         minus_k_index E (oc\<lparr>o_htilda := h, o_grids := g\<rparr>) i j = minus_k_index E oc i j))"

section \<open>A concrete instance of the parameters\<close>

text \<open>
  Used to run the model on examples: the generator is a counter that returns its own
  state, the spectrum is constant, the wavenumber of index \<open>i\<close> is \<open>i\<close>.
\<close>

definition test_externals :: "nat ocean_externals" where
  "test_externals =
     \<lparr>rng_new = (\<lambda>s. nat \<bar>s\<bar>),
      gaussRand = (\<lambda>r. (real r, Suc r)),
      Ph = (\<lambda>p kx kz. 2),
      wavenumbers = (\<lambda>M L i. real i),
      MOD_OCEAN_GENERATE_NORMALS = 2,
      MOD_OCEAN_GENERATE_FOAM = 1,
      do_spray = (\<lambda>omd. 0),
      ocean_compute = (\<lambda>fld oc s c idx. 1),
      gravity = 1,
      minus_k_index = (\<lambda>oc i j. 0),
      normal_of = (\<lambda>nx nz. (nx, 1, nz)),
      foam_of = (\<lambda>jxx jzz jxz. 0)\<rparr>"

definition test_modifier :: OceanModifierData where
  "test_modifier =
     \<lparr>resolution = 2, spatial_size = 50, wind_velocity = 30, smallest_wave = 1 / 100,
      wave_alignment = 0, depth = 200, wave_direction = 0, chop_amount = 1, damp = 0,
      time = 1, spectrum = 0, fetch_jonswap = 0, sharpen_peak_jonswap = 0, flag = 0,
      seed = 0, scale = 2, location = (0, 0, 0), cached = False, ocean = BKE_ocean_add,
      oceancache = \<lparr>och_M = 0, och_N = 0, och_frames = Map.empty\<rparr>\<rparr>"

section \<open>Grid dimensions\<close>

lemma BKE_ocean_init_M:
  "o_M (BKE_ocean_init E oc M N Lx Lz V l A w dm al dp tm sp fj sj f1 f2 f3 f4 f5 sd) = M"
  by (simp add: BKE_ocean_init_def Let_def)

lemma BKE_ocean_init_N:
  "o_N (BKE_ocean_init E oc M N Lx Lz V l A w dm al dp tm sp fj sj f1 f2 f3 f4 f5 sd) = N"
  by (simp add: BKE_ocean_init_def Let_def)


section \<open>The synthesis loop\<close>

lemma gaussRand_rng_after:
  "gaussRand E (rng_after E rng k) = (draw E rng k, rng_after E rng (Suc k))"
  by (simp add: rng_after_def draw_def)

lemma h0_entry_step:
  "h0_entry E oc i j (rng_after E rng0 (2 * (i * nat (o_N oc) + j)), h) =
     (rng_after E rng0 (2 * (i * nat (o_N oc) + Suc j)),
      h(i * nat (o_N oc) + j \<mapsto> h0_value E oc rng0 i j))"
  by (simp add: h0_entry_def h0_value_def gaussRand_rng_after Let_def)

lemma h0_row_fold:
  "fold (h0_entry E oc i) [0..<n] (rng_after E rng0 (2 * (i * nat (o_N oc))), h) =
     (rng_after E rng0 (2 * (i * nat (o_N oc) + n)),
      (\<lambda>idx. if i * nat (o_N oc) \<le> idx \<and> idx < i * nat (o_N oc) + n
             then Some (h0_value E oc rng0 i (idx - i * nat (o_N oc))) else h idx))"
proof (induction n)
  case 0
  show ?case by (auto simp add: fun_eq_iff)
next
  case (Suc n)
  have "fold (h0_entry E oc i) [0..<Suc n] (rng_after E rng0 (2 * (i * nat (o_N oc))), h) =
        h0_entry E oc i n
          (fold (h0_entry E oc i) [0..<n] (rng_after E rng0 (2 * (i * nat (o_N oc))), h))"
    by simp
  also have "\<dots> = h0_entry E oc i n (rng_after E rng0 (2 * (i * nat (o_N oc) + n)),
      (\<lambda>idx. if i * nat (o_N oc) \<le> idx \<and> idx < i * nat (o_N oc) + n
             then Some (h0_value E oc rng0 i (idx - i * nat (o_N oc))) else h idx))"
    by (simp only: Suc.IH)
  also have "\<dots> = (rng_after E rng0 (2 * (i * nat (o_N oc) + Suc n)),
      (\<lambda>idx. if i * nat (o_N oc) \<le> idx \<and> idx < i * nat (o_N oc) + n
             then Some (h0_value E oc rng0 i (idx - i * nat (o_N oc))) else h idx)
        (i * nat (o_N oc) + n \<mapsto> h0_value E oc rng0 i n))"
    by (rule h0_entry_step)
  also have "\<dots> = (rng_after E rng0 (2 * (i * nat (o_N oc) + Suc n)),
      (\<lambda>idx. if i * nat (o_N oc) \<le> idx \<and> idx < i * nat (o_N oc) + Suc n
             then Some (h0_value E oc rng0 i (idx - i * nat (o_N oc))) else h idx))"
    by (auto simp add: fun_eq_iff)
  finally show ?case .
qed

lemma idx_split:
  fixes m n idx :: nat
  assumes "m * n \<le> idx" "idx < m * n + n"
  shows "idx div n = m \<and> idx mod n = idx - m * n"
proof -
  define d where "d = idx - m * n"
  have 1: "idx = d + m * n" using assms(1) by (simp add: d_def)
  have 2: "d < n" using assms by (simp add: d_def)
  have "idx div n = m" unfolding 1 using 2 by simp
  moreover have "idx mod n = d" unfolding 1 using 2 by simp
  ultimately show ?thesis by (simp add: d_def)
qed

lemma h0_fill_fold:
  "fold (h0_row E oc) [0..<m] (rng0, h) =
     (rng_after E rng0 (2 * (m * nat (o_N oc))),
      (\<lambda>idx. if idx < m * nat (o_N oc)
             then Some (h0_value E oc rng0 (idx div nat (o_N oc)) (idx mod nat (o_N oc)))
             else h idx))"
proof (induction m)
  case 0
  show ?case by (simp add: rng_after_def)
next
  case (Suc m)
  define n where "n = nat (o_N oc)"
  define v where "v = h0_value E oc rng0"
  have row: "h0_row E oc m (rng_after E rng0 (2 * (m * n)), g) =
     (rng_after E rng0 (2 * (m * n + n)),
      (\<lambda>idx. if m * n \<le> idx \<and> idx < m * n + n
             then Some (v m (idx - m * n)) else g idx))" for g
    unfolding h0_row_def n_def v_def by (rule h0_row_fold)
  have IH: "fold (h0_row E oc) [0..<m] (rng0, h) =
     (rng_after E rng0 (2 * (m * n)),
      (\<lambda>idx. if idx < m * n then Some (v (idx div n) (idx mod n)) else h idx))"
    unfolding n_def v_def by (rule Suc.IH)
  have feq: "(if m * n \<le> idx \<and> idx < m * n + n then Some (v m (idx - m * n))
              else if idx < m * n then Some (v (idx div n) (idx mod n)) else h idx) =
             (if idx < Suc m * n then Some (v (idx div n) (idx mod n)) else h idx)" for idx
  proof (cases "m * n \<le> idx \<and> idx < m * n + n")
    case True
    then have "idx div n = m \<and> idx mod n = idx - m * n" by (simp add: idx_split)
    with True show ?thesis by (simp add: add.commute)
  next
    case False
    then have "idx < Suc m * n \<longleftrightarrow> idx < m * n" by (auto simp add: add.commute)
    with False show ?thesis by simp
  qed
  have "fold (h0_row E oc) [0..<Suc m] (rng0, h) =
        h0_row E oc m (fold (h0_row E oc) [0..<m] (rng0, h))"
    by simp
  also have "\<dots> = (rng_after E rng0 (2 * (m * n + n)),
      (\<lambda>idx. if m * n \<le> idx \<and> idx < m * n + n then Some (v m (idx - m * n))
             else if idx < m * n then Some (v (idx div n) (idx mod n)) else h idx))"
    by (simp only: IH row)
  also have "\<dots> = (rng_after E rng0 (2 * (Suc m * n)),
      (\<lambda>idx. if idx < Suc m * n then Some (v (idx div n) (idx mod n)) else h idx))"
  proof -
    have g: "(\<lambda>idx. if m * n \<le> idx \<and> idx < m * n + n then Some (v m (idx - m * n))
             else if idx < m * n then Some (v (idx div n) (idx mod n)) else h idx) =
          (\<lambda>idx. if idx < Suc m * n then Some (v (idx div n) (idx mod n)) else h idx)"
      by (rule ext) (rule feq)
    have r: "m * n + n = Suc m * n" by simp
    show ?thesis by (subst g) (simp only: r)
  qed
  finally show ?case unfolding n_def v_def .
qed

lemma h0_value_cong:
  "o_N a = o_N b \<Longrightarrow> o_params a = o_params b \<Longrightarrow> o_kx a = o_kx b \<Longrightarrow> o_kz a = o_kz b \<Longrightarrow>
   h0_value E a rng0 i j = h0_value E b rng0 i j"
  by (simp add: h0_value_def)

lemma BKE_ocean_init_h0:
  "o_h0 (BKE_ocean_init E oc M N Lx Lz V l A w dm al dp tm sp fj sj f1 f2 f3 f4 f5 sd) =
     (\<lambda>idx. if idx < nat M * nat N
            then Some (h0_value E
                   (BKE_ocean_init E oc M N Lx Lz V l A w dm al dp tm sp fj sj f1 f2 f3 f4 f5 sd)
                   (rng_new E sd) (idx div nat N) (idx mod nat N))
            else o_h0 oc idx)"
  by (simp add: fun_eq_iff BKE_ocean_init_def Let_def h0_fill_def h0_fill_fold h0_value_def)

lemma BKE_ocean_init_fields:
  "o_params (BKE_ocean_init E oc M N Lx Lz V l A w dm al dp tm sp fj sj f1 f2 f3 f4 f5 sd) =
     \<lparr>p_Lx = Lx, p_Lz = Lz, p_V = V, p_l = l, p_A = A, p_w = w, p_damp = dm,
      p_alignment = al, p_depth = dp, p_time = tm, p_spectrum = sp,
      p_fetch_jonswap = fj, p_sharpen_peak_jonswap = sj\<rparr>"
  "o_kx (BKE_ocean_init E oc M N Lx Lz V l A w dm al dp tm sp fj sj f1 f2 f3 f4 f5 sd) =
     wavenumbers E M Lx"
  "o_kz (BKE_ocean_init E oc M N Lx Lz V l A w dm al dp tm sp fj sj f1 f2 f3 f4 f5 sd) =
     wavenumbers E N Lz"
  "o_do_disp_y (BKE_ocean_init E oc M N Lx Lz V l A w dm al dp tm sp fj sj f1 f2 f3 f4 f5 sd) = f1"
  "o_do_chop (BKE_ocean_init E oc M N Lx Lz V l A w dm al dp tm sp fj sj f1 f2 f3 f4 f5 sd) = f2"
  "o_do_spray (BKE_ocean_init E oc M N Lx Lz V l A w dm al dp tm sp fj sj f1 f2 f3 f4 f5 sd) = f3"
  "o_do_normals (BKE_ocean_init E oc M N Lx Lz V l A w dm al dp tm sp fj sj f1 f2 f3 f4 f5 sd) = f4"
  "o_do_jacobian (BKE_ocean_init E oc M N Lx Lz V l A w dm al dp tm sp fj sj f1 f2 f3 f4 f5 sd) = f5"
  "o_grids (BKE_ocean_init E oc M N Lx Lz V l A w dm al dp tm sp fj sj f1 f2 f3 f4 f5 sd) =
     o_grids oc"
  "o_htilda (BKE_ocean_init E oc M N Lx Lz V l A w dm al dp tm sp fj sj f1 f2 f3 f4 f5 sd) =
     o_htilda oc"
  by (simp_all add: BKE_ocean_init_def Let_def)

section \<open>The static amplitude field\<close>

text \<open>
  C3. For every pair \<open>(i, j)\<close> the synthesis loop visits (\<open>i < M\<close>, \<open>j < N\<close>), the entry
  \<^verbatim>\<open>_h0[i * _N + j]\<close> of the initialised ocean is the complex pair of two successive
  draws of the generator seeded from \<^verbatim>\<open>seed\<close> (the draws number \<open>2k\<close> and \<open>2k + 1\<close>,
  \<open>k = i * N + j\<close>), scaled by \<open>sqrt (Ph(o, kx[i], kz[j]) / 2)\<close>.
\<close>

theorem synthesis_entry_is_scaled_gaussian_pair:
  assumes "oc' = BKE_ocean_init E oc M N Lx Lz V l A w dm al dp tm sp fj sj f1 f2 f3 f4 f5 sd"
    and "i < nat (o_M oc')" and "j < nat (o_N oc')"
  shows "o_h0 oc' (i * nat (o_N oc') + j) =
           Some (mul_complex_f
                   (Complex (draw E (rng_new E sd) (2 * (i * nat (o_N oc') + j)))
                            (draw E (rng_new E sd) (2 * (i * nat (o_N oc') + j) + 1)))
                   (sqrt (Ph E (o_params oc') (o_kx oc' i) (o_kz oc' j) / 2)))"
proof -
  have M: "o_M oc' = M" and N: "o_N oc' = N"
    unfolding assms(1) by (rule BKE_ocean_init_M, rule BKE_ocean_init_N)
  have j: "j < nat N" and i: "i < nat M" using assms(2,3) M N by simp_all
  have "i * nat N + j < i * nat N + nat N" using j by simp
  also have "\<dots> = Suc i * nat N" by simp
  also have "\<dots> \<le> nat M * nat N" using i by (intro mult_le_mono1) simp
  finally have lt: "i * nat N + j < nat M * nat N" .
  have dm: "(i * nat N + j) div nat N = i \<and> (i * nat N + j) mod nat N = j"
    using j by simp
  show ?thesis
    unfolding N unfolding assms(1)
    using j by (subst BKE_ocean_init_h0) (simp add: lt h0_value_def BKE_ocean_init_N)
qed

text \<open>The test modifier at resolution 2 gives a 4 by 4 grid.\<close>

lemma test_modifier_init:
  "BKE_ocean_init_from_modifier test_externals BKE_ocean_add test_modifier 2 =
     BKE_ocean_init test_externals BKE_ocean_add 4 4 50 50 30 (1 / 100) 1 0 0 0 200 1 0 0 0
       1 1 0 0 0 0"
  by (simp add: BKE_ocean_init_from_modifier_def Let_def int_mul_def test_modifier_def
      test_externals_def short_of_bool_def)

text \<open>
  On the 4 by 4 grid, row 1 and column 2 is entry 6; the counter generator draws 12 and
  13 there and the constant spectrum scales by \<open>sqrt (2 / 2)\<close>.
\<close>

theorem synthesis_entry_is_scaled_gaussian_pair_witness:
  "(1::nat) < nat (o_M (BKE_ocean_init_from_modifier test_externals BKE_ocean_add test_modifier 2)) \<and>
   (2::nat) < nat (o_N (BKE_ocean_init_from_modifier test_externals BKE_ocean_add test_modifier 2)) \<and>
   o_h0 (BKE_ocean_init_from_modifier test_externals BKE_ocean_add test_modifier 2) 6 =
     Some (Complex 12 13)"
proof -
  let ?oc = "BKE_ocean_init_from_modifier test_externals BKE_ocean_add test_modifier 2"
  have M: "o_M ?oc = 4" and N: "o_N ?oc = 4"
    by (simp_all add: test_modifier_init BKE_ocean_init_M BKE_ocean_init_N)
  have i: "(1::nat) < nat (o_M ?oc)" and j: "(2::nat) < nat (o_N ?oc)"
    by (simp_all add: M N)
  have d: "draw test_externals (rng_new test_externals 0) k = real k" for k
  proof -
    have "rng_after test_externals r k = r + k" for r
      by (induction k) (simp_all add: rng_after_def test_externals_def)
    then show ?thesis by (simp add: draw_def test_externals_def)
  qed
  have "o_h0 ?oc 6 = Some (Complex 12 13)"
    using synthesis_entry_is_scaled_gaussian_pair [OF test_modifier_init i j]
    by (simp add: N d mul_complex_f_def) (simp add: test_externals_def)
  with i j show ?thesis by simp
qed


section \<open>The size of the static field\<close>

lemma BKE_ocean_init_h0_dom:
  "dom (o_h0 (BKE_ocean_init E oc M N Lx Lz V l A w dm al dp tm sp fj sj f1 f2 f3 f4 f5 sd)) =
     dom (o_h0 oc) \<union> {..<nat M * nat N}"
  by (subst BKE_ocean_init_h0) (auto simp add: dom_def)

lemma half_spectrum_le:
  assumes "1 \<le> N"
  shows "half_spectrum_size M N \<le> M * N"
proof -
  have "1 + N div 2 \<le> N" using assms by arith
  then show ?thesis unfolding half_spectrum_size_def by (rule mult_le_mono2)
qed

lemma half_spectrum_less:
  assumes "1 \<le> M" and "3 \<le> N"
  shows "half_spectrum_size M N < M * N"
proof -
  have "1 + N div 2 < N" using assms(2) by arith
  moreover have "0 < M" using assms(1) by simp
  ultimately show ?thesis unfolding half_spectrum_size_def by (rule mult_less_mono2)
qed

lemma default_modifier_init:
  "ocean (init_data test_externals test_modifier) =
     BKE_ocean_init test_externals BKE_ocean_add 49 49 50 50 30 (1 / 100) 1 0 0 0 200 1 0 0 0
       1 1 0 0 0 0"
  by (simp add: init_data_def BKE_ocean_init_from_modifier_def Let_def int_mul_def
      test_modifier_def test_externals_def short_of_bool_def)

section \<open>An arithmetic fact about the default grid\<close>


section \<open>Choppiness follows the chop amount\<close>

lemma compute_grid_flags:
  "o_do_disp_y (compute_grid E fld s c oc) = o_do_disp_y oc"
  "o_do_chop (compute_grid E fld s c oc) = o_do_chop oc"
  "o_do_jacobian (compute_grid E fld s c oc) = o_do_jacobian oc"
  "o_do_normals (compute_grid E fld s c oc) = o_do_normals oc"
  by (simp_all add: compute_grid_def)

lemma BKE_ocean_simulate_transforms:
  "BKE_ocean_simulate E oc t s c =
     fold (\<lambda>fld. compute_grid E fld s c) (simulate_transforms oc)
       (oc\<lparr>o_htilda := fold (ocean_compute_htilda E oc t) [0..<nat (o_M oc)] (o_htilda oc)\<rparr>)"
  by (simp add: BKE_ocean_simulate_def simulate_transforms_def Let_def compute_grid_flags)

lemma fold_compute_grid_untouched:
  "fld \<notin> set flds \<Longrightarrow>
   o_grids (fold (\<lambda>f. compute_grid E f s c) flds oc) fld = o_grids oc fld"
  by (induction flds arbitrary: oc) (auto simp add: compute_grid_def)

lemma init_from_modifier_do_chop:
  "o_do_chop (BKE_ocean_init_from_modifier E oc omd r) = short_of_bool (0 < chop_amount omd)"
  by (simp add: BKE_ocean_init_from_modifier_def Let_def BKE_ocean_init_fields)

lemma init_from_modifier_grids:
  "o_grids (BKE_ocean_init_from_modifier E oc omd r) = o_grids oc"
  by (simp add: BKE_ocean_init_from_modifier_def Let_def BKE_ocean_init_fields)

lemma transforms_chop:
  "Disp_x \<in> set (simulate_transforms oc) \<longleftrightarrow> o_do_chop oc \<noteq> 0"
  "Disp_z \<in> set (simulate_transforms oc) \<longleftrightarrow> o_do_chop oc \<noteq> 0"
  by (simp_all add: simulate_transforms_def)

section \<open>Displace mode moves vertices vertically\<close>

lemma displace_vertex_fst:
  "fst (displace_vertex ev omd ocr co) =
     (c0 co, c1 co + c1 (disp (snd (displace_vertex ev omd ocr co))) * scale omd, c2 co)"
  by (simp add: displace_vertex_def Let_def)

lemma displace_vertex_snd:
  "snd (displace_vertex ev omd ocr co) =
     ev (ocean omd) ocr
        ((c0 co - c0 (location omd)) / real_of_int (spatial_size omd))
        ((c2 co - c2 (location omd)) / real_of_int (spatial_size omd))"
  by (simp add: displace_vertex_def Let_def)

lemma displace_ocean_mesh_Cons:
  "displace_ocean_mesh ev omd ocr (co # verts) =
     fst (displace_vertex ev omd ocr co) #
     displace_ocean_mesh ev omd (snd (displace_vertex ev omd ocr co)) verts"
  by (simp add: split_beta)

lemma length_displace_ocean_mesh:
  "length (displace_ocean_mesh ev omd ocr verts) = length verts"
  by (induction verts arbitrary: ocr) (simp_all add: split_beta)

lemma displace_ocean_mesh_nth:
  "i < length verts \<Longrightarrow>
   displace_ocean_mesh ev omd ocr verts ! i =
     (c0 (verts ! i),
      c1 (verts ! i) + c1 (disp (eval_results ev omd ocr verts ! i)) * scale omd,
      c2 (verts ! i))"
proof (induction verts arbitrary: ocr i)
  case Nil
  then show ?case by simp
next
  case (Cons co verts)
  show ?case
  proof (cases i)
    case 0
    show ?thesis
      unfolding 0 displace_ocean_mesh_Cons
      by (simp add: displace_vertex_fst Let_def)
  next
    case (Suc k)
    then have k: "k < length verts" using Cons.prems by simp
    show ?thesis
      unfolding Suc displace_ocean_mesh_Cons
      using Cons.IH [OF k] by (simp add: Let_def)
  qed
qed

lemma eval_results_nth:
  "i < length verts \<Longrightarrow>
   eval_results ev omd ocr verts ! i =
     ev (ocean omd) (if i = 0 then ocr else eval_results ev omd ocr verts ! (i - 1))
        ((c0 (verts ! i) - c0 (location omd)) / real_of_int (spatial_size omd))
        ((c2 (verts ! i) - c2 (location omd)) / real_of_int (spatial_size omd))"
proof (induction verts arbitrary: ocr i)
  case Nil
  then show ?case by simp
next
  case (Cons co verts)
  show ?case
  proof (cases i)
    case 0
    show ?thesis unfolding 0 by (simp add: Let_def displace_vertex_snd)
  next
    case (Suc k)
    then have k: "k < length verts" using Cons.prems by simp
    show ?thesis
    proof (cases k)
      case 0
      show ?thesis
        unfolding Suc 0 using Cons.IH [OF k [unfolded 0]] by (simp add: Let_def)
    next
      case (Suc m)
      show ?thesis
        unfolding \<open>i = Suc k\<close> Suc using Cons.IH [OF k [unfolded Suc]] by (simp add: Let_def)
    qed
  qed
qed

text \<open>
  C10. In displace mode the mesh keeps its vertex count, and for every vertex the
  coordinates \<^verbatim>\<open>co[0]\<close> and \<^verbatim>\<open>co[2]\<close> are unchanged while \<^verbatim>\<open>co[1]\<close> grows by
  \<^verbatim>\<open>ocr.disp[1] * omd->scale\<close>, where \<^verbatim>\<open>ocr\<close> is what the evaluator returned for the
  vertex's own \<open>(u, v)\<close>. This holds for every evaluator, so also for one that fills the
  horizontal displacements.
\<close>

theorem displace_changes_only_height:
  "length (displace_ocean_mesh ev omd ocr verts) = length verts \<and>
   (\<forall>i < length verts.
      c0 (displace_ocean_mesh ev omd ocr verts ! i) = c0 (verts ! i) \<and>
      c2 (displace_ocean_mesh ev omd ocr verts ! i) = c2 (verts ! i) \<and>
      c1 (displace_ocean_mesh ev omd ocr verts ! i) =
        c1 (verts ! i) + c1 (disp (eval_results ev omd ocr verts ! i)) * scale omd \<and>
      eval_results ev omd ocr verts ! i =
        ev (ocean omd) (if i = 0 then ocr else eval_results ev omd ocr verts ! (i - 1))
           ((c0 (verts ! i) - c0 (location omd)) / real_of_int (spatial_size omd))
           ((c2 (verts ! i) - c2 (location omd)) / real_of_int (spatial_size omd)))"
  using eval_results_nth [of _ verts ev omd ocr]
  by (simp add: length_displace_ocean_mesh displace_ocean_mesh_nth)

text \<open>
  Two vertices and an evaluator that returns non-zero horizontal displacements: the
  second vertex moves from height 5 to \<open>5 + (6 / 50) * 2\<close> and nowhere else.
\<close>

theorem displace_changes_only_height_witness:
  "(1::nat) < length ([(1, 2, 3), (4, 5, 6)] :: float3 list) \<and>
   displace_ocean_mesh (\<lambda>oc ocr u v. ocr\<lparr>disp := (u, v, u + v)\<rparr>) test_modifier
     neutral_result [(1, 2, 3), (4, 5, 6)] ! 1 = (4, 5 + (6 / 50) * 2, 6)"
proof -
  let ?ev = "\<lambda>(oc::Ocean) (ocr::OceanResult) (u::real) (v::real). ocr\<lparr>disp := (u, v, u + v)\<rparr>"
  let ?vs = "[(1, 2, 3), (4, 5, 6)] :: float3 list"
  have l: "(1::nat) < length ?vs" by simp
  note w = displace_changes_only_height
    [of ?ev test_modifier neutral_result ?vs, THEN conjunct2, rule_format, OF l]
  have len: "length (displace_ocean_mesh ?ev test_modifier neutral_result ?vs) = 2"
    using displace_changes_only_height [of ?ev test_modifier neutral_result ?vs] by simp
  obtain x y z where d: "displace_ocean_mesh ?ev test_modifier neutral_result ?vs ! 1 = (x, y, z)"
    by (cases "displace_ocean_mesh ?ev test_modifier neutral_result ?vs ! 1") blast
  have "x = 4" "z = 6" "y = 5 + (6 / 50) * 2"
    using w unfolding d by (simp_all add: test_modifier_def)
  with l d show ?thesis by simp
qed

section \<open>Time evolution of the amplitudes\<close>

lemma htilda_row_fold:
  "fold (htilda_entry E oc t i) [0..<n] ht =
     (\<lambda>idx. if i * (1 + nat (o_N oc) div 2) \<le> idx \<and> idx < i * (1 + nat (o_N oc) div 2) + n \<and>
               htilda_value E oc t i (idx - i * (1 + nat (o_N oc) div 2)) \<noteq> None
            then htilda_value E oc t i (idx - i * (1 + nat (o_N oc) div 2))
            else ht idx)"
proof (induction n)
  case 0
  show ?case by (auto simp add: fun_eq_iff)
next
  case (Suc n)
  define S where "S = 1 + nat (o_N oc) div 2"
  define v where "v = htilda_value E oc t i"
  have IH: "fold (htilda_entry E oc t i) [0..<n] ht =
     (\<lambda>idx. if i * S \<le> idx \<and> idx < i * S + n \<and> v (idx - i * S) \<noteq> None
            then v (idx - i * S) else ht idx)"
    unfolding S_def v_def by (rule Suc.IH)
  have step: "htilda_entry E oc t i n g =
     (case v n of Some h \<Rightarrow> g(i * S + n \<mapsto> h) | None \<Rightarrow> g)" for g
    unfolding S_def v_def htilda_entry_def ..
  have "fold (htilda_entry E oc t i) [0..<Suc n] ht =
        htilda_entry E oc t i n (fold (htilda_entry E oc t i) [0..<n] ht)"
    by simp
  also have "\<dots> =
     (\<lambda>idx. if i * S \<le> idx \<and> idx < i * S + Suc n \<and> v (idx - i * S) \<noteq> None
            then v (idx - i * S) else ht idx)"
    unfolding IH step
    by (cases "v n") (auto simp add: fun_eq_iff less_Suc_eq)
  finally show ?case unfolding S_def v_def .
qed


lemma htilda_fill_fold:
  "fold (ocean_compute_htilda E oc t) [0..<m] ht =
     (\<lambda>idx. if idx < m * (1 + nat (o_N oc) div 2) \<and>
               htilda_value E oc t (idx div (1 + nat (o_N oc) div 2))
                 (idx mod (1 + nat (o_N oc) div 2)) \<noteq> None
            then htilda_value E oc t (idx div (1 + nat (o_N oc) div 2))
                   (idx mod (1 + nat (o_N oc) div 2))
            else ht idx)"
proof (induction m)
  case 0
  show ?case by simp
next
  case (Suc m)
  define S where "S = 1 + nat (o_N oc) div 2"
  define v where "v = htilda_value E oc t"
  have row: "ocean_compute_htilda E oc t m g =
     (\<lambda>idx. if m * S \<le> idx \<and> idx < m * S + S \<and> v m (idx - m * S) \<noteq> None
            then v m (idx - m * S) else g idx)" for g
    unfolding ocean_compute_htilda_def S_def v_def by (rule htilda_row_fold)
  have IH: "fold (ocean_compute_htilda E oc t) [0..<m] ht =
     (\<lambda>idx. if idx < m * S \<and> v (idx div S) (idx mod S) \<noteq> None
            then v (idx div S) (idx mod S) else ht idx)"
    unfolding S_def v_def by (rule Suc.IH)
  have feq: "(if m * S \<le> idx \<and> idx < m * S + S \<and> v m (idx - m * S) \<noteq> None
              then v m (idx - m * S)
              else if idx < m * S \<and> v (idx div S) (idx mod S) \<noteq> None
                   then v (idx div S) (idx mod S) else ht idx) =
             (if idx < Suc m * S \<and> v (idx div S) (idx mod S) \<noteq> None
              then v (idx div S) (idx mod S) else ht idx)" for idx
  proof (cases "m * S \<le> idx \<and> idx < m * S + S")
    case True
    then have "idx div S = m \<and> idx mod S = idx - m * S" by (simp add: idx_split)
    with True show ?thesis by (simp add: add.commute)
  next
    case False
    then have "idx < Suc m * S \<longleftrightarrow> idx < m * S" by (auto simp add: add.commute)
    with False show ?thesis by auto
  qed
  have "fold (ocean_compute_htilda E oc t) [0..<Suc m] ht =
        ocean_compute_htilda E oc t m (fold (ocean_compute_htilda E oc t) [0..<m] ht)"
    by simp
  also have "\<dots> =
     (\<lambda>idx. if m * S \<le> idx \<and> idx < m * S + S \<and> v m (idx - m * S) \<noteq> None
            then v m (idx - m * S)
            else if idx < m * S \<and> v (idx div S) (idx mod S) \<noteq> None
                 then v (idx div S) (idx mod S) else ht idx)"
    by (simp only: IH row)
  also have "\<dots> =
     (\<lambda>idx. if idx < Suc m * S \<and> v (idx div S) (idx mod S) \<noteq> None
            then v (idx div S) (idx mod S) else ht idx)"
    by (rule ext) (rule feq)
  finally show ?case unfolding S_def v_def .
qed

lemma fold_compute_grid_htilda:
  "o_htilda (fold (\<lambda>f. compute_grid E f s c) flds oc) = o_htilda oc"
  by (induction flds arbitrary: oc) (simp_all add: compute_grid_def)

lemma BKE_ocean_simulate_htilda:
  "o_htilda (BKE_ocean_simulate E oc t s c) =
     fold (ocean_compute_htilda E oc t) [0..<nat (o_M oc)] (o_htilda oc)"
  by (simp add: BKE_ocean_simulate_transforms fold_compute_grid_htilda)

lemma Complex_cos_sin_exp:
  "Complex (cos x) (sin x) = exp (\<i> * complex_of_real x)"
  by (simp add: cis_conv_exp [symmetric] cis.code)

text \<open>
  C5. For every row \<open>i < M\<close> and half-spectrum column \<open>j \<le> N/2\<close> whose operands
  \<open>h0(k)\<close> and \<open>h0(-k)\<close> are stored, the simulation step at time \<open>t\<close> leaves
  \<open>h0(k) * e^{i*omega*t} + conj(h0(-k)) * e^{-i*omega*t}\<close> in \<^verbatim>\<open>_htilda\<close>, where \<open>omega\<close>
  is the root of \<open>g * k * tanh(k * depth)\<close> for the magnitude \<open>k\<close> of \<open>(kx[i], kz[j])\<close>,
  so that \<open>omega^2 = g * k * tanh(k * depth)\<close> for non-negative \<open>g\<close> and depth.
\<close>

theorem htilda_time_evolution:
  assumes "i < nat (o_M oc)" and "j \<le> nat (o_N oc) div 2"
    and "o_h0 oc (i * nat (o_N oc) + j) = Some h0_k"
    and "o_h0 oc (minus_k_index E oc i j) = Some h0_minus_k"
  shows "o_htilda (BKE_ocean_simulate E oc t s c) (i * (1 + nat (o_N oc) div 2) + j) =
           Some (h0_k * exp (\<i> * complex_of_real (omega E oc i j * t)) +
                 cnj h0_minus_k * exp (- (\<i> * complex_of_real (omega E oc i j * t)))) \<and>
         omega E oc i j =
           sqrt (gravity E * sqrt ((o_kx oc i)\<^sup>2 + (o_kz oc j)\<^sup>2) *
                 tanh (sqrt ((o_kx oc i)\<^sup>2 + (o_kz oc j)\<^sup>2) * p_depth (o_params oc))) \<and>
         (0 \<le> gravity E \<and> 0 \<le> p_depth (o_params oc) \<longrightarrow>
            (omega E oc i j)\<^sup>2 =
              gravity E * sqrt ((o_kx oc i)\<^sup>2 + (o_kz oc j)\<^sup>2) *
              tanh (sqrt ((o_kx oc i)\<^sup>2 + (o_kz oc j)\<^sup>2) * p_depth (o_params oc)))"
proof -
  define S where "S = 1 + nat (o_N oc) div 2"
  define k where "k = sqrt ((o_kx oc i)\<^sup>2 + (o_kz oc j)\<^sup>2)"
  have j: "j < S" using assms(2) by (simp add: S_def)
  have "i * S + j < i * S + S" using j by simp
  also have "\<dots> = Suc i * S" by simp
  also have "\<dots> \<le> nat (o_M oc) * S" using assms(1) by (intro mult_le_mono1) simp
  finally have lt: "i * S + j < nat (o_M oc) * S" .
  have dm: "(i * S + j) div S = i" "(i * S + j) mod S = j" using j by simp_all
  have v: "htilda_value E oc t i j =
             Some (h0_k * exp (\<i> * complex_of_real (omega E oc i j * t)) +
                   cnj h0_minus_k * exp (- (\<i> * complex_of_real (omega E oc i j * t))))"
    unfolding htilda_value_def assms(3,4) Complex_cos_sin_exp by simp
  have 1: "o_htilda (BKE_ocean_simulate E oc t s c) (i * S + j) =
             Some (h0_k * exp (\<i> * complex_of_real (omega E oc i j * t)) +
                   cnj h0_minus_k * exp (- (\<i> * complex_of_real (omega E oc i j * t))))"
    unfolding BKE_ocean_simulate_htilda htilda_fill_fold S_def [symmetric]
    by (simp only: lt dm v) simp
  have 2: "omega E oc i j = sqrt (gravity E * k * tanh (k * p_depth (o_params oc)))"
    by (simp add: omega_def k_def Let_def)
  have 3: "(omega E oc i j)\<^sup>2 = gravity E * k * tanh (k * p_depth (o_params oc))"
    if "0 \<le> gravity E \<and> 0 \<le> p_depth (o_params oc)"
  proof -
    have "0 \<le> k" by (simp add: k_def)
    then have "0 \<le> tanh (k * p_depth (o_params oc))" using that by simp
    then have "0 \<le> gravity E * k * tanh (k * p_depth (o_params oc))"
      using that \<open>0 \<le> k\<close> by simp
    then show ?thesis unfolding 2 by simp
  qed
  from 1 2 3 show ?thesis unfolding S_def k_def by blast
qed


text \<open>The test modifier at resolution 2: entry \<open>idx\<close> of the static field.\<close>

lemma test_draw: "draw test_externals (rng_new test_externals 0) k = real k"
proof -
  have "rng_after test_externals r k = r + k" for r
    by (induction k) (simp_all add: rng_after_def test_externals_def)
  then show ?thesis by (simp add: draw_def test_externals_def)
qed

lemma test_h0:
  "idx < 16 \<Longrightarrow>
   o_h0 (BKE_ocean_init_from_modifier test_externals BKE_ocean_add test_modifier 2) idx =
     Some (Complex (real (2 * idx)) (real (2 * idx + 1)))"
  unfolding test_modifier_init
  by (subst BKE_ocean_init_h0)
    (simp add: h0_value_def BKE_ocean_init_N test_draw mul_complex_f_def,
     simp add: test_externals_def)

text \<open>
  Row 1, column 2 of the 4 by 4 test grid at time 0: the operands are entries 6 and 0 of
  the static field, the result is entry 5 of the half-spectrum array.
\<close>

theorem htilda_time_evolution_witness:
  "(1::nat) < nat (o_M (BKE_ocean_init_from_modifier test_externals BKE_ocean_add test_modifier 2)) \<and>
   (2::nat) \<le> nat (o_N (BKE_ocean_init_from_modifier test_externals BKE_ocean_add test_modifier 2)) div 2 \<and>
   o_h0 (BKE_ocean_init_from_modifier test_externals BKE_ocean_add test_modifier 2) 6 =
     Some (Complex 12 13) \<and>
   o_h0 (BKE_ocean_init_from_modifier test_externals BKE_ocean_add test_modifier 2) 0 =
     Some (Complex 0 1) \<and>
   o_htilda (BKE_ocean_simulate test_externals
      (BKE_ocean_init_from_modifier test_externals BKE_ocean_add test_modifier 2) 0 1 1) 5 =
     Some (Complex 12 12)"
proof -
  let ?oc = "BKE_ocean_init_from_modifier test_externals BKE_ocean_add test_modifier 2"
  have M: "o_M ?oc = 4" and N: "o_N ?oc = 4"
    by (simp_all add: test_modifier_init BKE_ocean_init_M BKE_ocean_init_N)
  have i: "(1::nat) < nat (o_M ?oc)" and j: "(2::nat) \<le> nat (o_N ?oc) div 2"
    by (simp_all add: M N)
  have a: "o_h0 ?oc (1 * nat (o_N ?oc) + 2) = Some (Complex 12 13)"
    using test_h0 [of 6] by (simp add: N)
  have m: "minus_k_index test_externals ?oc 1 2 = 0" by (simp add: test_externals_def)
  have b: "o_h0 ?oc (minus_k_index test_externals ?oc 1 2) = Some (Complex 0 1)"
    unfolding m using test_h0 [of 0] by simp
  have h: "1 * (1 + nat (o_N ?oc) div 2) + 2 = (5::nat)" by (simp add: N)
  have c: "Complex 12 13 + cnj (Complex 0 1) = Complex 12 12" by (simp add: complex_eq_iff)
  have "o_htilda (BKE_ocean_simulate test_externals ?oc 0 1 1) 5 = Some (Complex 12 12)"
    using htilda_time_evolution [OF i j a b, of 0 1 1, THEN conjunct1, unfolded h]
    by (simp add: c)
  moreover have "o_h0 ?oc 6 = Some (Complex 12 13)" "o_h0 ?oc 0 = Some (Complex 0 1)"
    using test_h0 [of 6] test_h0 [of 0] by simp_all
  ultimately show ?thesis using i j by blast
qed

section \<open>Evaluation with every feature disabled\<close>

text \<open>
  C8. When all five feature flags of an ocean are zero, evaluation at any integer grid
  coordinate and at any \<open>(u, v)\<close> returns the neutral result: zero displacement, the
  normal \<open>(0, 1, 0)\<close>, zero foam.
\<close>

theorem eval_all_flags_off_is_neutral:
  assumes "o_do_disp_y oc = 0" and "o_do_chop oc = 0" and "o_do_spray oc = 0"
    and "o_do_normals oc = 0" and "o_do_jacobian oc = 0"
  shows "BKE_ocean_eval_ij E oc i j = neutral_result \<and>
         BKE_ocean_eval_uv E oc u v = neutral_result \<and>
         disp (BKE_ocean_eval_uv E oc u v) = (0, 0, 0) \<and>
         normal (BKE_ocean_eval_uv E oc u v) = (0, 1, 0) \<and>
         foam (BKE_ocean_eval_uv E oc u v) = 0"
  using assms
  by (simp add: BKE_ocean_eval_ij_def BKE_ocean_eval_uv_def neutral_result_def Let_def)

text \<open>
  An ocean initialised with every flag off and then simulated, evaluated at a grid
  coordinate outside the tile and at a fractional \<open>(u, v)\<close>.
\<close>

theorem eval_all_flags_off_is_neutral_witness:
  "o_do_disp_y (BKE_ocean_init test_externals BKE_ocean_add 4 4 50 50 30 (1 / 100) 1 0 0 0
      200 1 0 0 0 0 0 0 0 0 0) = 0 \<and>
   BKE_ocean_eval_ij test_externals
     (BKE_ocean_simulate test_externals
        (BKE_ocean_init test_externals BKE_ocean_add 4 4 50 50 30 (1 / 100) 1 0 0 0
           200 1 0 0 0 0 0 0 0 0 0) 1 1 1) 5 (- 3) = neutral_result \<and>
   BKE_ocean_eval_uv test_externals
     (BKE_ocean_simulate test_externals
        (BKE_ocean_init test_externals BKE_ocean_add 4 4 50 50 30 (1 / 100) 1 0 0 0
           200 1 0 0 0 0 0 0 0 0 0) 1 1 1) (3 / 10) (77 / 10) =
     \<lparr>disp = (0, 0, 0), normal = (0, 1, 0), foam = 0\<rparr>"
proof -
  let ?o = "BKE_ocean_init test_externals BKE_ocean_add 4 4 50 50 30 (1 / 100) 1 0 0 0
      200 1 0 0 0 0 0 0 0 0 0"
  let ?s = "BKE_ocean_simulate test_externals ?o 1 1 1"
  have f: "o_do_disp_y ?o = 0" "o_do_chop ?o = 0" "o_do_spray ?o = 0"
    "o_do_normals ?o = 0" "o_do_jacobian ?o = 0"
    by (simp_all add: BKE_ocean_init_fields)
  have s: "o_do_disp_y ?s = 0" "o_do_chop ?s = 0" "o_do_spray ?s = 0"
    "o_do_normals ?s = 0" "o_do_jacobian ?s = 0"
    using f by (simp_all add: BKE_ocean_simulate_def Let_def)
  show ?thesis
    using eval_all_flags_off_is_neutral [OF s, of test_externals 5 "- 3" "3 / 10" "77 / 10"] f(1)
    by (simp add: neutral_result_def)
qed

section \<open>The transform calls of a step\<close>

lemma BKE_ocean_simulate_folds:
  "BKE_ocean_simulate E oc t s c =
     fold (\<lambda>fld. compute_grid E fld s c) (simulate_transforms oc) (simulate_htilda E oc t)"
  by (simp add: BKE_ocean_simulate_transforms simulate_htilda_def)

lemma fold_compute_grid_at:
  "fld \<notin> set post \<Longrightarrow>
   o_grids (fold (\<lambda>f. compute_grid E f s c) (pre @ fld # post) oc) fld =
     Some (ocean_compute E fld (fold (\<lambda>f. compute_grid E f s c) pre oc) s c)"
  by (simp add: fold_compute_grid_untouched) (simp add: compute_grid_def)

lemma init_from_modifier_do_disp_y:
  "o_do_disp_y (BKE_ocean_init_from_modifier E oc omd r) = 1"
  by (simp add: BKE_ocean_init_from_modifier_def Let_def BKE_ocean_init_fields short_of_bool_def)

lemma simulate_transforms_height:
  "o_do_disp_y oc \<noteq> 0 \<Longrightarrow>
   \<exists>post. simulate_transforms oc = [] @ Disp_y # post \<and> Disp_y \<notin> set post"
  by (simp add: simulate_transforms_def)

lemma simulate_transforms_chop:
  "o_do_disp_y oc \<noteq> 0 \<Longrightarrow> o_do_chop oc \<noteq> 0 \<Longrightarrow>
   \<exists>post. simulate_transforms oc = [Disp_y] @ Disp_x # Disp_z # post \<and>
          Disp_x \<notin> set post \<and> Disp_z \<notin> set post"
  by (simp add: simulate_transforms_def)

lemma simulate_height_grid:
  assumes "o_do_disp_y oc \<noteq> 0"
  shows "o_grids (BKE_ocean_simulate E oc t s c) Disp_y =
           Some (ocean_compute E Disp_y (simulate_htilda E oc t) s c)"
proof -
  obtain post where p: "simulate_transforms oc = [] @ Disp_y # post" "Disp_y \<notin> set post"
    using simulate_transforms_height [OF assms] by blast
  show ?thesis
    unfolding BKE_ocean_simulate_folds p(1)
    using fold_compute_grid_at [OF p(2), of E s c "[]"] by simp
qed

lemma simulate_chop_grids:
  assumes "o_do_disp_y oc \<noteq> 0" and "o_do_chop oc \<noteq> 0"
  shows "o_grids (BKE_ocean_simulate E oc t s c) Disp_x =
           Some (ocean_compute E Disp_x
                   (compute_grid E Disp_y s c (simulate_htilda E oc t)) s c)"
    and "o_grids (BKE_ocean_simulate E oc t s c) Disp_z =
           Some (ocean_compute E Disp_z
                   (compute_grid E Disp_x s c
                      (compute_grid E Disp_y s c (simulate_htilda E oc t))) s c)"
proof -
  obtain post where p: "simulate_transforms oc = [Disp_y] @ Disp_x # Disp_z # post"
    "Disp_x \<notin> set post" "Disp_z \<notin> set post"
    using simulate_transforms_chop [OF assms] by blast
  have x: "Disp_x \<notin> set (Disp_z # post)" using p(2) by simp
  show "o_grids (BKE_ocean_simulate E oc t s c) Disp_x =
           Some (ocean_compute E Disp_x
                   (compute_grid E Disp_y s c (simulate_htilda E oc t)) s c)"
    unfolding BKE_ocean_simulate_folds p(1)
    using fold_compute_grid_at [OF x, of E s c "[Disp_y]"] by simp
  have e: "[Disp_y] @ Disp_x # Disp_z # post = [Disp_y, Disp_x] @ Disp_z # post" by simp
  show "o_grids (BKE_ocean_simulate E oc t s c) Disp_z =
           Some (ocean_compute E Disp_z
                   (compute_grid E Disp_x s c
                      (compute_grid E Disp_y s c (simulate_htilda E oc t))) s c)"
    unfolding BKE_ocean_simulate_folds p(1) e
    using fold_compute_grid_at [OF p(3), of E s c "[Disp_y, Disp_x]"] by simp
qed

text \<open>
  C9. After initialisation from the modifier the chop flag is set exactly when
  \<^verbatim>\<open>chop_amount > 0\<close>; nothing else feeds it. The simulation step runs the transforms
  that \<open>simulate_transforms\<close> lists, on the ocean that phase 1 left. For
  \<^verbatim>\<open>chop_amount <= 0\<close> neither horizontal displacement is among them and both grids stay
  as they were before the initialisation. For \<^verbatim>\<open>chop_amount > 0\<close> both are among them,
  and after the step the X grid is what the transform of X returned on the ocean that
  held the height grid, the Z grid what the transform of Z returned on the ocean that
  held the height and the X grid.
\<close>

theorem chop_enabled_iff_chop_amount_positive:
  fixes E :: "'rng ocean_externals"
  defines "oc' \<equiv> \<lambda>oc omd r. BKE_ocean_init_from_modifier E oc omd r"
  shows "(o_do_chop (oc' oc omd r) \<noteq> 0 \<longleftrightarrow> 0 < chop_amount omd) \<and>
         BKE_ocean_simulate E (oc' oc omd r) t s c =
           fold (\<lambda>fld. compute_grid E fld s c) (simulate_transforms (oc' oc omd r))
             (simulate_htilda E (oc' oc omd r) t) \<and>
         (chop_amount omd \<le> 0 \<longrightarrow>
            Disp_x \<notin> set (simulate_transforms (oc' oc omd r)) \<and>
            Disp_z \<notin> set (simulate_transforms (oc' oc omd r)) \<and>
            o_grids (BKE_ocean_simulate E (oc' oc omd r) t s c) Disp_x = o_grids oc Disp_x \<and>
            o_grids (BKE_ocean_simulate E (oc' oc omd r) t s c) Disp_z = o_grids oc Disp_z) \<and>
         (0 < chop_amount omd \<longrightarrow>
            Disp_x \<in> set (simulate_transforms (oc' oc omd r)) \<and>
            Disp_z \<in> set (simulate_transforms (oc' oc omd r)) \<and>
            o_grids (BKE_ocean_simulate E (oc' oc omd r) t s c) Disp_x =
              Some (ocean_compute E Disp_x
                      (compute_grid E Disp_y s c (simulate_htilda E (oc' oc omd r) t)) s c) \<and>
            o_grids (BKE_ocean_simulate E (oc' oc omd r) t s c) Disp_z =
              Some (ocean_compute E Disp_z
                      (compute_grid E Disp_x s c
                         (compute_grid E Disp_y s c (simulate_htilda E (oc' oc omd r) t)))
                      s c))"
proof -
  let ?o = "BKE_ocean_init_from_modifier E oc omd r"
  have flag: "o_do_chop ?o \<noteq> 0 \<longleftrightarrow> 0 < chop_amount omd"
    by (simp add: init_from_modifier_do_chop short_of_bool_def)
  have height: "o_do_disp_y ?o \<noteq> 0" by (simp add: init_from_modifier_do_disp_y)
  have off: "Disp_x \<notin> set (simulate_transforms ?o) \<and> Disp_z \<notin> set (simulate_transforms ?o) \<and>
             o_grids (BKE_ocean_simulate E ?o t s c) Disp_x = o_grids oc Disp_x \<and>
             o_grids (BKE_ocean_simulate E ?o t s c) Disp_z = o_grids oc Disp_z"
    if "chop_amount omd \<le> 0"
  proof -
    have n: "Disp_x \<notin> set (simulate_transforms ?o)" "Disp_z \<notin> set (simulate_transforms ?o)"
      using that flag by (simp_all add: transforms_chop)
    show ?thesis
      using n by (simp add: BKE_ocean_simulate_transforms fold_compute_grid_untouched
          init_from_modifier_grids)
  qed
  have on: "Disp_x \<in> set (simulate_transforms ?o) \<and> Disp_z \<in> set (simulate_transforms ?o) \<and>
            o_grids (BKE_ocean_simulate E ?o t s c) Disp_x =
              Some (ocean_compute E Disp_x
                      (compute_grid E Disp_y s c (simulate_htilda E ?o t)) s c) \<and>
            o_grids (BKE_ocean_simulate E ?o t s c) Disp_z =
              Some (ocean_compute E Disp_z
                      (compute_grid E Disp_x s c
                         (compute_grid E Disp_y s c (simulate_htilda E ?o t))) s c)"
    if "0 < chop_amount omd"
  proof -
    have c: "o_do_chop ?o \<noteq> 0" using that flag by simp
    have y: "Disp_x \<in> set (simulate_transforms ?o)" "Disp_z \<in> set (simulate_transforms ?o)"
      using c by (simp_all add: transforms_chop)
    show ?thesis using y simulate_chop_grids [OF height c] by blast
  qed
  show ?thesis
    unfolding oc'_def using flag off on BKE_ocean_simulate_folds [of E ?o t s c] by blast
qed

text \<open>The test modifier with chop amount 1, and the same modifier with chop amount 0.\<close>

theorem chop_enabled_iff_chop_amount_positive_witness:
  "(0::real) < chop_amount test_modifier \<and>
   o_do_chop (BKE_ocean_init_from_modifier test_externals BKE_ocean_add test_modifier 2) = 1 \<and>
   o_grids (BKE_ocean_simulate test_externals
      (BKE_ocean_init_from_modifier test_externals BKE_ocean_add test_modifier 2) 0 1 1)
      Disp_x = Some (\<lambda>idx. 1) \<and>
   o_grids (BKE_ocean_simulate test_externals
      (BKE_ocean_init_from_modifier test_externals BKE_ocean_add test_modifier 2) 0 1 1)
      Disp_z = Some (\<lambda>idx. 1) \<and>
   chop_amount (test_modifier\<lparr>chop_amount := 0\<rparr>) \<le> 0 \<and>
   o_do_chop (BKE_ocean_init_from_modifier test_externals BKE_ocean_add
      (test_modifier\<lparr>chop_amount := 0\<rparr>) 2) = 0 \<and>
   o_grids (BKE_ocean_simulate test_externals
      (BKE_ocean_init_from_modifier test_externals BKE_ocean_add
         (test_modifier\<lparr>chop_amount := 0\<rparr>) 2) 0 1 1) Disp_x = None \<and>
   o_grids (BKE_ocean_simulate test_externals
      (BKE_ocean_init_from_modifier test_externals BKE_ocean_add
         (test_modifier\<lparr>chop_amount := 0\<rparr>) 2) 0 1 1) Disp_z = None"
proof -
  have p: "(0::real) < chop_amount test_modifier"
    and z: "chop_amount (test_modifier\<lparr>chop_amount := 0\<rparr>) \<le> 0"
    by (simp_all add: test_modifier_def)
  have f: "o_do_chop (BKE_ocean_init_from_modifier test_externals BKE_ocean_add test_modifier 2) = 1"
    "o_do_chop (BKE_ocean_init_from_modifier test_externals BKE_ocean_add
      (test_modifier\<lparr>chop_amount := 0\<rparr>) 2) = 0"
    by (simp_all add: init_from_modifier_do_chop short_of_bool_def test_modifier_def)
  have e: "o_grids BKE_ocean_add Disp_x = None" "o_grids BKE_ocean_add Disp_z = None"
    by (simp_all add: BKE_ocean_add_def)
  have k: "ocean_compute test_externals fld st 1 1 = (\<lambda>idx. 1)" for fld st
    by (simp add: test_externals_def)
  note on = chop_enabled_iff_chop_amount_positive
    [of test_externals BKE_ocean_add test_modifier 2 0 1 1,
     THEN conjunct2, THEN conjunct2, THEN conjunct2, rule_format, OF p]
  note off = chop_enabled_iff_chop_amount_positive
    [of test_externals BKE_ocean_add "test_modifier\<lparr>chop_amount := 0\<rparr>" 2 0 1 1,
     THEN conjunct2, THEN conjunct2, THEN conjunct1, rule_format, OF z]
  from on have 1:
    "o_grids (BKE_ocean_simulate test_externals
       (BKE_ocean_init_from_modifier test_externals BKE_ocean_add test_modifier 2) 0 1 1)
       Disp_x = Some (\<lambda>idx. 1)"
    "o_grids (BKE_ocean_simulate test_externals
       (BKE_ocean_init_from_modifier test_externals BKE_ocean_add test_modifier 2) 0 1 1)
       Disp_z = Some (\<lambda>idx. 1)"
    unfolding k by blast+
  from off e have 2:
    "o_grids (BKE_ocean_simulate test_externals
       (BKE_ocean_init_from_modifier test_externals BKE_ocean_add
          (test_modifier\<lparr>chop_amount := 0\<rparr>) 2) 0 1 1) Disp_x = None"
    "o_grids (BKE_ocean_simulate test_externals
       (BKE_ocean_init_from_modifier test_externals BKE_ocean_add
          (test_modifier\<lparr>chop_amount := 0\<rparr>) 2) 0 1 1) Disp_z = None"
    by metis+
  from p z f 1 2 show ?thesis by blast
qed

section \<open>Grid dimensions and the height transform\<close>




section \<open>Loading a frame that was not baked\<close>

text \<open>
  A modifier with \<^verbatim>\<open>cached\<close> set, an initialised ocean and an empty cache: frame 7 is
  \<open>NotBaked\<close>, yet after \<^verbatim>\<open>simulate_ocean_modifier\<close> the ocean has no height grid, which
  a live step would have computed.
\<close>

theorem cached_modifier_no_fallback_counterexample:
  "cached (test_modifier\<lparr>cached := True,
      ocean := BKE_ocean_init_from_modifier test_externals BKE_ocean_add test_modifier 2\<rparr>) \<and>
   load_frame (oceancache (test_modifier\<lparr>cached := True,
      ocean := BKE_ocean_init_from_modifier test_externals BKE_ocean_add test_modifier 2\<rparr>)) 7 =
     Inl NotBaked \<and>
   o_grids (ocean (simulate_ocean_modifier test_externals
      (test_modifier\<lparr>cached := True,
         ocean := BKE_ocean_init_from_modifier test_externals BKE_ocean_add test_modifier 2\<rparr>) 7))
      Disp_y = None \<and>
   o_grids (BKE_ocean_simulate test_externals
      (BKE_ocean_init_from_modifier test_externals BKE_ocean_add test_modifier 2) 1 2 1)
      Disp_y \<noteq> None"
proof -
  let ?o = "BKE_ocean_init_from_modifier test_externals BKE_ocean_add test_modifier 2"
  have g: "o_grids ?o Disp_y = None"
    by (simp add: init_from_modifier_grids BKE_ocean_add_def)
  have h: "o_do_disp_y ?o \<noteq> 0" by (simp add: init_from_modifier_do_disp_y)
  have l: "o_grids (BKE_ocean_simulate test_externals ?o 1 2 1) Disp_y \<noteq> None"
    by (simp add: simulate_height_grid [OF h])
  show ?thesis
    using g l by (simp add: simulate_ocean_modifier_def load_frame_def test_modifier_def)
qed

text \<open>
  C7, as the code has it. When the record of a frame is absent, or one of its channels
  is incomplete, \<open>load_frame\<close> returns the value \<open>NotBaked\<close>; every record it does return
  is the stored one with all three channels complete; it always returns one or the
  other. The caller \<^verbatim>\<open>simulate_ocean_modifier\<close> does not look at that result: with
  \<^verbatim>\<open>cached\<close> set it leaves the modifier data as they are, whatever the cache holds, and
  it runs \<^verbatim>\<open>BKE_ocean_simulate\<close> exactly when \<^verbatim>\<open>cached\<close> is clear.
\<close>

theorem load_frame_NotBaked_and_caller_choice:
  "(och_frames och f = None \<or> (\<exists>r. och_frames och f = Some r \<and> \<not> record_complete och r)
      \<longrightarrow> load_frame och f = Inl NotBaked) \<and>
   (\<forall>r. load_frame och f = Inr r \<longrightarrow>
      och_frames och f = Some r \<and>
      length (rec_disp r) = och_M och * och_N och \<and>
      length (rec_normal r) = och_M och * och_N och \<and>
      length (rec_foam r) = och_M och * och_N och) \<and>
   (load_frame och f = Inl NotBaked \<or> (\<exists>r. load_frame och f = Inr r)) \<and>
   (cached omd \<longrightarrow> simulate_ocean_modifier E omd f = omd) \<and>
   (\<not> cached omd \<longrightarrow>
      simulate_ocean_modifier E omd f =
        omd\<lparr>ocean := BKE_ocean_simulate E (ocean omd) (time omd) (scale omd)
                         (chop_amount omd)\<rparr>)"
  by (auto simp add: load_frame_def record_complete_def simulate_ocean_modifier_def
      split: option.splits if_splits)

text \<open>
  A cache of a 1 by 2 grid: frame 7 is absent, frame 1 lacks a displacement sample,
  frame 2 is complete. The test modifier with \<^verbatim>\<open>cached\<close> set, and with \<^verbatim>\<open>cached\<close> clear.
\<close>

theorem load_frame_NotBaked_and_caller_choice_witness:
  "och_frames \<lparr>och_M = 1, och_N = 2, och_frames =
       [1 \<mapsto> \<lparr>rec_disp = [(0, 1, 0)], rec_normal = [(0, 1, 0), (0, 1, 0)], rec_foam = [0, 0]\<rparr>,
        2 \<mapsto> \<lparr>rec_disp = [(0, 1, 0), (0, 2, 0)], rec_normal = [(0, 1, 0), (0, 1, 0)],
               rec_foam = [0, 0]\<rparr>]\<rparr> 7 = None \<and>
   load_frame \<lparr>och_M = 1, och_N = 2, och_frames =
       [1 \<mapsto> \<lparr>rec_disp = [(0, 1, 0)], rec_normal = [(0, 1, 0), (0, 1, 0)], rec_foam = [0, 0]\<rparr>,
        2 \<mapsto> \<lparr>rec_disp = [(0, 1, 0), (0, 2, 0)], rec_normal = [(0, 1, 0), (0, 1, 0)],
               rec_foam = [0, 0]\<rparr>]\<rparr> 7 = Inl NotBaked \<and>
   load_frame \<lparr>och_M = 1, och_N = 2, och_frames =
       [1 \<mapsto> \<lparr>rec_disp = [(0, 1, 0)], rec_normal = [(0, 1, 0), (0, 1, 0)], rec_foam = [0, 0]\<rparr>,
        2 \<mapsto> \<lparr>rec_disp = [(0, 1, 0), (0, 2, 0)], rec_normal = [(0, 1, 0), (0, 1, 0)],
               rec_foam = [0, 0]\<rparr>]\<rparr> 1 = Inl NotBaked \<and>
   load_frame \<lparr>och_M = 1, och_N = 2, och_frames =
       [1 \<mapsto> \<lparr>rec_disp = [(0, 1, 0)], rec_normal = [(0, 1, 0), (0, 1, 0)], rec_foam = [0, 0]\<rparr>,
        2 \<mapsto> \<lparr>rec_disp = [(0, 1, 0), (0, 2, 0)], rec_normal = [(0, 1, 0), (0, 1, 0)],
               rec_foam = [0, 0]\<rparr>]\<rparr> 2 =
     Inr \<lparr>rec_disp = [(0, 1, 0), (0, 2, 0)], rec_normal = [(0, 1, 0), (0, 1, 0)],
          rec_foam = [0, 0]\<rparr> \<and>
   cached (test_modifier\<lparr>cached := True\<rparr>) \<and>
   simulate_ocean_modifier test_externals (test_modifier\<lparr>cached := True\<rparr>) 7 =
     test_modifier\<lparr>cached := True\<rparr> \<and>
   \<not> cached test_modifier \<and>
   ocean (simulate_ocean_modifier test_externals test_modifier 7) =
     BKE_ocean_simulate test_externals BKE_ocean_add 1 2 1"
proof -
  let ?bad = "\<lparr>rec_disp = [(0, 1, 0)], rec_normal = [(0, 1, 0), (0, 1, 0)],
               rec_foam = [0, 0]\<rparr> :: FrameCacheRecord"
  let ?good = "\<lparr>rec_disp = [(0, 1, 0), (0, 2, 0)], rec_normal = [(0, 1, 0), (0, 1, 0)],
                rec_foam = [0, 0]\<rparr> :: FrameCacheRecord"
  let ?och = "\<lparr>och_M = 1, och_N = 2, och_frames = [1 \<mapsto> ?bad, 2 \<mapsto> ?good]\<rparr>"
  have absent: "och_frames ?och 7 = None" by simp
  have malformed: "\<exists>r. och_frames ?och 1 = Some r \<and> \<not> record_complete ?och r"
    by (simp add: record_complete_def)
  have c: "cached (test_modifier\<lparr>cached := True\<rparr>)" by simp
  have n: "\<not> cached test_modifier" by (simp add: test_modifier_def)
  note t = load_frame_NotBaked_and_caller_choice
  have 1: "load_frame ?och 7 = Inl NotBaked"
    using t [of ?och 7] absent by blast
  have 2: "load_frame ?och 1 = Inl NotBaked"
    using t [of ?och 1] malformed by blast
  have 3: "load_frame ?och 2 = Inr ?good"
    by (simp add: load_frame_def record_complete_def)
  have 4: "simulate_ocean_modifier test_externals (test_modifier\<lparr>cached := True\<rparr>) 7 =
             test_modifier\<lparr>cached := True\<rparr>"
    using t [of ?och 7 "test_modifier\<lparr>cached := True\<rparr>" test_externals] c by blast
  have "simulate_ocean_modifier test_externals test_modifier 7 =
          test_modifier\<lparr>ocean := BKE_ocean_simulate test_externals (ocean test_modifier)
             (time test_modifier) (scale test_modifier) (chop_amount test_modifier)\<rparr>"
    using t [of ?och 7 test_modifier test_externals] n by blast
  then have 5: "ocean (simulate_ocean_modifier test_externals test_modifier 7) =
             BKE_ocean_simulate test_externals BKE_ocean_add 1 2 1"
    by (simp add: test_modifier_def)
  from absent 1 2 3 c 4 n 5 show ?thesis by blast
qed

section \<open>Full and half-spectrum storage\<close>

text \<open>
  With the defaults of \<^verbatim>\<open>init_data\<close> the grid is 49 by 49. A half-spectrum array would
  hold 1225 entries; the synthesis loop fills 2401 entries of \<^verbatim>\<open>_h0\<close>.
\<close>

theorem h0_half_spectrum_counterexample:
  "o_M (ocean (init_data test_externals test_modifier)) = 49 \<and>
   o_N (ocean (init_data test_externals test_modifier)) = 49 \<and>
   half_spectrum_size 49 49 = 1225 \<and>
   card (dom (o_h0 (ocean (init_data test_externals test_modifier)))) = 2401 \<and>
   \<not> card (dom (o_h0 (ocean (init_data test_externals test_modifier))))
       \<le> half_spectrum_size 49 49"
  by (simp add: default_modifier_init BKE_ocean_init_M BKE_ocean_init_N
      BKE_ocean_init_h0_dom BKE_ocean_add_def half_spectrum_size_def)

lemma htilda_value_None_iff:
  "htilda_value E oc t i j = None \<longleftrightarrow>
     o_h0 oc (i * nat (o_N oc) + j) = None \<or> o_h0 oc (minus_k_index E oc i j) = None"
  by (simp add: htilda_value_def split: option.splits)

lemma BKE_ocean_simulate_htilda_dom:
  "dom (o_htilda (BKE_ocean_simulate E oc t s c)) \<subseteq>
     dom (o_htilda oc) \<union> {..<half_spectrum_size (nat (o_M oc)) (nat (o_N oc))}"
  unfolding BKE_ocean_simulate_htilda htilda_fill_fold half_spectrum_size_def
  by (auto simp add: dom_def split: if_splits)

lemma BKE_ocean_simulate_htilda_dom_exact:
  assumes e: "dom (o_htilda oc) = {}"
    and h0: "dom (o_h0 oc) = {..<nat (o_M oc) * nat (o_N oc)}"
    and N: "1 \<le> o_N oc"
    and mk: "\<forall>i<nat (o_M oc). \<forall>j\<le>nat (o_N oc) div 2.
               minus_k_index E oc i j < nat (o_M oc) * nat (o_N oc)"
  shows "dom (o_htilda (BKE_ocean_simulate E oc t s c)) =
           {..<half_spectrum_size (nat (o_M oc)) (nat (o_N oc))}"
proof -
  define S where "S = 1 + nat (o_N oc) div 2"
  define m where "m = nat (o_M oc)"
  define n where "n = nat (o_N oc)"
  have Spos: "0 < S" by (simp add: S_def)
  have n1: "1 \<le> n" using N by (simp add: n_def)
  have present: "htilda_value E oc t (idx div S) (idx mod S) \<noteq> None" if "idx < m * S" for idx
  proof -
    have i: "idx div S < m" using that Spos by (simp add: less_mult_imp_div_less)
    have "idx mod S < S" using Spos by simp
    then have j: "idx mod S \<le> n div 2" by (simp add: S_def n_def)
    have "n div 2 < n" using n1 by simp
    with j have jn: "idx mod S < n" by simp
    have "idx div S * n + idx mod S < idx div S * n + n" using jn by simp
    also have "\<dots> = Suc (idx div S) * n" by simp
    also have "\<dots> \<le> m * n" using i by (intro mult_le_mono1) simp
    finally have "idx div S * n + idx mod S \<in> dom (o_h0 oc)"
      unfolding h0 m_def n_def by simp
    moreover have "minus_k_index E oc (idx div S) (idx mod S) \<in> dom (o_h0 oc)"
      unfolding h0 using mk i j by (simp add: m_def n_def)
    ultimately show ?thesis
      unfolding htilda_value_None_iff n_def by (auto simp add: dom_def)
  qed
  have none: "o_htilda oc idx = None" for idx using e by (simp add: dom_def)
  have "o_htilda (BKE_ocean_simulate E oc t s c) idx \<noteq> None \<longleftrightarrow> idx < m * S" for idx
    unfolding BKE_ocean_simulate_htilda htilda_fill_fold S_def [symmetric] m_def [symmetric]
    using present [of idx] none [of idx] by auto
  then have "dom (o_htilda (BKE_ocean_simulate E oc t s c)) = {..<m * S}"
    by (auto simp add: dom_def)
  moreover have "half_spectrum_size (nat (o_M oc)) (nat (o_N oc)) = m * S"
    unfolding half_spectrum_size_def S_def m_def ..
  ultimately show ?thesis by (simp only:)
qed

text \<open>
  C4, as the code has it. Starting from a fresh ocean, the synthesis loop writes
  \<^verbatim>\<open>_h0\<close> at every index below \<open>M * N\<close> and nowhere else: the static field is a full
  array of \<open>M * N\<close> entries. That is at least the half-spectrum size \<open>M * (1 + N/2)\<close>
  once \<open>N \<ge> 1\<close>, and strictly more once \<open>M \<ge> 1\<close> and \<open>N \<ge> 3\<close>. The per-step amplitude
  field \<^verbatim>\<open>_htilda\<close> is a half-spectrum: after a step it has no entry at or beyond
  \<open>M * (1 + N/2)\<close>, and it has exactly the entries below that size when \<open>N \<ge> 1\<close> and the
  amplitude of every mirrored wavenumber lies in the static field.
\<close>

theorem h0_is_full_spectrum:
  "dom (o_h0 (BKE_ocean_init E BKE_ocean_add M N Lx Lz V l A w dm al dp tm sp fj sj
                f1 f2 f3 f4 f5 sd)) = {..<nat M * nat N} \<and>
   card (dom (o_h0 (BKE_ocean_init E BKE_ocean_add M N Lx Lz V l A w dm al dp tm sp fj sj
                f1 f2 f3 f4 f5 sd))) = nat M * nat N \<and>
   (1 \<le> N \<longrightarrow> half_spectrum_size (nat M) (nat N) \<le> nat M * nat N) \<and>
   (1 \<le> M \<and> 3 \<le> N \<longrightarrow> half_spectrum_size (nat M) (nat N) < nat M * nat N) \<and>
   dom (o_htilda (BKE_ocean_simulate E
          (BKE_ocean_init E BKE_ocean_add M N Lx Lz V l A w dm al dp tm sp fj sj
             f1 f2 f3 f4 f5 sd) t s c))
     \<subseteq> {..<half_spectrum_size (nat M) (nat N)} \<and>
   (1 \<le> N \<and>
    (\<forall>i<nat M. \<forall>j\<le>nat N div 2.
       minus_k_index E
         (BKE_ocean_init E BKE_ocean_add M N Lx Lz V l A w dm al dp tm sp fj sj
            f1 f2 f3 f4 f5 sd) i j < nat M * nat N) \<longrightarrow>
    dom (o_htilda (BKE_ocean_simulate E
           (BKE_ocean_init E BKE_ocean_add M N Lx Lz V l A w dm al dp tm sp fj sj
              f1 f2 f3 f4 f5 sd) t s c))
      = {..<half_spectrum_size (nat M) (nat N)})"
proof -
  let ?o = "BKE_ocean_init E BKE_ocean_add M N Lx Lz V l A w dm al dp tm sp fj sj
              f1 f2 f3 f4 f5 sd"
  have M: "o_M ?o = M" and N: "o_N ?o = N"
    by (rule BKE_ocean_init_M, rule BKE_ocean_init_N)
  have d: "dom (o_h0 ?o) = {..<nat M * nat N}"
    by (simp add: BKE_ocean_init_h0_dom BKE_ocean_add_def)
  have le: "1 \<le> N \<longrightarrow> half_spectrum_size (nat M) (nat N) \<le> nat M * nat N"
    by (simp add: half_spectrum_le)
  have less: "1 \<le> M \<and> 3 \<le> N \<longrightarrow> half_spectrum_size (nat M) (nat N) < nat M * nat N"
    by (auto intro: half_spectrum_less)
  have e: "dom (o_htilda ?o) = {}"
    by (simp add: BKE_ocean_init_fields BKE_ocean_add_def)
  have h: "dom (o_htilda (BKE_ocean_simulate E ?o t s c))
             \<subseteq> {..<half_spectrum_size (nat M) (nat N)}"
    using BKE_ocean_simulate_htilda_dom [of E ?o t s c] by (simp add: e M N)
  have x: "dom (o_htilda (BKE_ocean_simulate E ?o t s c))
             = {..<half_spectrum_size (nat M) (nat N)}"
    if "1 \<le> N \<and> (\<forall>i<nat M. \<forall>j\<le>nat N div 2. minus_k_index E ?o i j < nat M * nat N)"
    using BKE_ocean_simulate_htilda_dom_exact [of ?o E t s c] that e d
    by (simp add: M N)
  from d le less h x show ?thesis by simp
qed

text \<open>The 4 by 4 grid of the test modifier: 16 static entries, 12 per-step entries.\<close>

theorem h0_is_full_spectrum_witness:
  "(1::int) \<le> 4 \<and> (3::int) \<le> 4 \<and>
   dom (o_h0 (BKE_ocean_init_from_modifier test_externals BKE_ocean_add test_modifier 2)) =
     {..<16} \<and>
   half_spectrum_size 4 4 = 12 \<and> half_spectrum_size 4 4 < 4 * 4 \<and>
   dom (o_htilda (BKE_ocean_simulate test_externals
          (BKE_ocean_init_from_modifier test_externals BKE_ocean_add test_modifier 2) 0 1 1))
     = {..<12}"
proof -
  have mk: "minus_k_index test_externals oc i j = 0" for oc i j
    by (simp add: test_externals_def)
  show ?thesis
    using h0_is_full_spectrum [of test_externals 4 4 50 50 30 "1 / 100" 1 0 0 0 200 1 0 0 0
        1 1 0 0 0 0 0 1 1]
    by (simp add: test_modifier_init half_spectrum_size_def mk)
qed

section \<open>Baking and loading a frame\<close>

lemma length_concat_rows:
  "length (concat (map (\<lambda>y. map (g y) [0..<rx]) [0..<ry])) = ry * rx"
  by (induction ry) simp_all

lemma concat_rows_nth:
  "x < rx \<Longrightarrow> y < ry \<Longrightarrow>
   concat (map (\<lambda>y. map (g y) [0..<rx]) [0..<ry]) ! (y * rx + x) = g y x"
proof (induction ry)
  case 0
  then show ?case by simp
next
  case (Suc ry)
  have l: "length (concat (map (\<lambda>y. map (g y) [0..<rx]) [0..<ry])) = ry * rx"
    by (rule length_concat_rows)
  show ?case
  proof (cases "y < ry")
    case True
    have "y * rx + x < y * rx + rx" using Suc.prems(1) by simp
    also have "\<dots> = Suc y * rx" by simp
    also have "\<dots> \<le> ry * rx" using True by (intro mult_le_mono1) simp
    finally have lt: "y * rx + x < ry * rx" .
    show ?thesis using Suc.IH [OF Suc.prems(1) True] lt by (simp add: nth_append l)
  next
    case False
    then have y: "y = ry" using Suc.prems(2) by simp
    show ?thesis using Suc.prems(1) by (simp add: nth_append l y)
  qed
qed

lemma grid_samples_length: "length (grid_samples chan E oc rx ry) = rx * ry"
  unfolding grid_samples_def by (simp add: length_concat_rows)

lemma grid_samples_nth:
  "x < rx \<Longrightarrow> y < ry \<Longrightarrow>
   grid_samples chan E oc rx ry ! (y * rx + x) = chan (BKE_ocean_eval_ij E oc (int x) (int y))"
  unfolding grid_samples_def
  using concat_rows_nth [of x rx y ry "\<lambda>y x. chan (BKE_ocean_eval_ij E oc (int x) (int y))"]
  by simp

lemma bake_record_complete:
  "och_M och = rx \<Longrightarrow> och_N och = ry \<Longrightarrow> record_complete och (bake_record E oc rx ry)"
  by (simp add: record_complete_def bake_record_def grid_samples_length)

lemma bake_frame_split:
  "bake_frame E time_of s c f (oc, och) =
     (BKE_ocean_simulate E oc (time_of f) s c,
      och\<lparr>och_frames := (och_frames och)
         (f \<mapsto> bake_record E (BKE_ocean_simulate E oc (time_of f) s c) (och_M och) (och_N och))\<rparr>)"
  by (simp add: bake_frame_def Let_def)

lemma fold_bake_frame_size:
  "och_M (snd (fold (bake_frame E time_of s c) fs (oc, och))) = och_M och \<and>
   och_N (snd (fold (bake_frame E time_of s c) fs (oc, och))) = och_N och"
  by (induction fs arbitrary: oc och) (simp_all add: bake_frame_split)

lemma fold_bake_frame_other:
  "f \<notin> set fs \<Longrightarrow>
   och_frames (snd (fold (bake_frame E time_of s c) fs (oc, och))) f = och_frames och f"
  by (induction fs arbitrary: oc och) (simp_all add: bake_frame_split)

lemma BKE_ocean_bake_frame:
  assumes "bakestart \<le> f" and "f \<le> bakeend"
  shows "och_frames (snd (BKE_ocean_bake E time_of s c bakestart bakeend (oc, och))) f =
           Some (bake_record E
                   (BKE_ocean_simulate E
                      (fst (BKE_ocean_bake E time_of s c bakestart (f - 1) (oc, och)))
                      (time_of f) s c)
                   (och_M och) (och_N och))"
proof -
  obtain oc1 och1 where st: "BKE_ocean_bake E time_of s c bakestart (f - 1) (oc, och) = (oc1, och1)"
    by (cases "BKE_ocean_bake E time_of s c bakestart (f - 1) (oc, och)") blast
  have sz: "och_M och1 = och_M och" "och_N och1 = och_N och"
    using fold_bake_frame_size [of E time_of s c "[bakestart..f - 1]" oc och] st
    by (simp_all add: BKE_ocean_bake_def)
  have sp: "[bakestart..bakeend] = [bakestart..f - 1] @ f # [f + 1..bakeend]"
    using assms by (rule upto_split3)
  have nf: "f \<notin> set [f + 1..bakeend]" by simp
  have "BKE_ocean_bake E time_of s c bakestart bakeend (oc, och) =
          fold (bake_frame E time_of s c) [f + 1..bakeend]
            (bake_frame E time_of s c f (oc1, och1))"
    using st by (simp add: BKE_ocean_bake_def sp)
  then show ?thesis
    unfolding bake_frame_split
    by (simp add: fold_bake_frame_other [OF nf] sz st)
qed

lemma BKE_ocean_bake_load:
  assumes "bakestart \<le> f" and "f \<le> bakeend"
  shows "load_frame (snd (BKE_ocean_bake E time_of s c bakestart bakeend (oc, och))) f =
           Inr (bake_record E
                  (BKE_ocean_simulate E
                     (fst (BKE_ocean_bake E time_of s c bakestart (f - 1) (oc, och)))
                     (time_of f) s c)
                  (och_M och) (och_N och))"
proof -
  let ?B = "snd (BKE_ocean_bake E time_of s c bakestart bakeend (oc, och))"
  have sz: "och_M ?B = och_M och" "och_N ?B = och_N och"
    using fold_bake_frame_size [of E time_of s c "[bakestart..bakeend]" oc och]
    by (simp_all add: BKE_ocean_bake_def)
  show ?thesis
    unfolding load_frame_def BKE_ocean_bake_frame [OF assms]
    by (simp add: bake_record_complete sz)
qed

text \<open>
  A step overwrites what the step before it wrote, once the transforms read the
  amplitudes only.
\<close>

lemma fold_compute_grid_shape:
  "fold (\<lambda>f. compute_grid E f s c) flds oc =
     oc\<lparr>o_grids := o_grids (fold (\<lambda>f. compute_grid E f s c) flds oc)\<rparr>"
proof (induction flds arbitrary: oc)
  case Nil
  show ?case by simp
next
  case (Cons a flds)
  have "fold (\<lambda>f. compute_grid E f s c) (a # flds) oc =
          fold (\<lambda>f. compute_grid E f s c) flds (compute_grid E a s c oc)" by simp
  also have "\<dots> = (compute_grid E a s c oc)
      \<lparr>o_grids := o_grids (fold (\<lambda>f. compute_grid E f s c) flds (compute_grid E a s c oc))\<rparr>"
    by (rule Cons.IH)
  also have "\<dots> = oc
      \<lparr>o_grids := o_grids (fold (\<lambda>f. compute_grid E f s c) flds (compute_grid E a s c oc))\<rparr>"
    by (simp add: compute_grid_def)
  finally show ?case by simp
qed

lemma BKE_ocean_simulate_shape:
  "BKE_ocean_simulate E oc t s c =
     oc\<lparr>o_htilda := fold (ocean_compute_htilda E oc t) [0..<nat (o_M oc)] (o_htilda oc),
        o_grids := o_grids (BKE_ocean_simulate E oc t s c)\<rparr>"
proof -
  have "BKE_ocean_simulate E oc t s c =
          (simulate_htilda E oc t)\<lparr>o_grids := o_grids (BKE_ocean_simulate E oc t s c)\<rparr>"
    unfolding BKE_ocean_simulate_folds by (rule fold_compute_grid_shape)
  then show ?thesis by (simp add: simulate_htilda_def)
qed

lemma htilda_value_forget:
  assumes "transforms_read_amplitudes E"
  shows "htilda_value E (oc\<lparr>o_htilda := h, o_grids := g\<rparr>) t i j = htilda_value E oc t i j"
proof -
  have m: "minus_k_index E (oc\<lparr>o_htilda := h, o_grids := g\<rparr>) i j = minus_k_index E oc i j"
    using assms unfolding transforms_read_amplitudes_def by blast
  have om: "omega E (oc\<lparr>o_htilda := h, o_grids := g\<rparr>) i j = omega E oc i j"
    by (simp add: omega_def)
  show ?thesis by (simp add: htilda_value_def m om split: option.splits)
qed

lemma ocean_compute_htilda_forget:
  assumes "transforms_read_amplitudes E"
  shows "ocean_compute_htilda E (oc\<lparr>o_htilda := h, o_grids := g\<rparr>) t =
         ocean_compute_htilda E oc t"
proof -
  have "htilda_entry E (oc\<lparr>o_htilda := h, o_grids := g\<rparr>) t i = htilda_entry E oc t i" for i
    by (intro ext) (simp add: htilda_entry_def htilda_value_forget [OF assms]
        split: option.splits)
  then show ?thesis by (intro ext) (simp add: ocean_compute_htilda_def)
qed

lemma htilda_fill_twice:
  "fold (ocean_compute_htilda E oc t) [0..<m]
     (fold (ocean_compute_htilda E oc ta) [0..<m] ht) =
   fold (ocean_compute_htilda E oc t) [0..<m] ht"
proof -
  have nn: "htilda_value E oc ta i j = None \<longleftrightarrow> htilda_value E oc t i j = None" for i j
    by (simp add: htilda_value_None_iff)
  show ?thesis
  proof (rule ext)
    fix idx
    note n = nn [of "idx div (1 + nat (o_N oc) div 2)" "idx mod (1 + nat (o_N oc) div 2)"]
    show "fold (ocean_compute_htilda E oc t) [0..<m]
            (fold (ocean_compute_htilda E oc ta) [0..<m] ht) idx =
          fold (ocean_compute_htilda E oc t) [0..<m] ht idx"
      unfolding htilda_fill_fold using n by (auto split: if_splits)
  qed
qed

lemma simulate_htilda_forget:
  assumes "transforms_read_amplitudes E"
  shows "simulate_htilda E (BKE_ocean_simulate E oc ta sa ca) t =
           (simulate_htilda E oc t)\<lparr>o_grids := o_grids (BKE_ocean_simulate E oc ta sa ca)\<rparr>"
proof -
  define H1 where "H1 = fold (ocean_compute_htilda E oc ta) [0..<nat (o_M oc)] (o_htilda oc)"
  define G1 where "G1 = o_grids (BKE_ocean_simulate E oc ta sa ca)"
  have sh: "BKE_ocean_simulate E oc ta sa ca = oc\<lparr>o_htilda := H1, o_grids := G1\<rparr>"
    unfolding H1_def G1_def by (rule BKE_ocean_simulate_shape)
  have "simulate_htilda E (oc\<lparr>o_htilda := H1, o_grids := G1\<rparr>) t =
          (simulate_htilda E oc t)\<lparr>o_grids := G1\<rparr>"
    unfolding simulate_htilda_def ocean_compute_htilda_forget [OF assms]
    by (simp add: H1_def htilda_fill_twice)
  then show ?thesis unfolding G1_def [symmetric] by (subst sh)
qed

lemma compute_grid_forget:
  assumes "transforms_read_amplitudes E"
  shows "compute_grid E a s c (oc\<lparr>o_grids := g\<rparr>) =
           (compute_grid E a s c oc)\<lparr>o_grids := g(a \<mapsto> ocean_compute E a oc s c)\<rparr>"
proof -
  have "ocean_compute E a (oc\<lparr>o_grids := g\<rparr>) s c = ocean_compute E a oc s c"
    using assms unfolding transforms_read_amplitudes_def by blast
  then show ?thesis by (simp add: compute_grid_def)
qed

lemma fold_compute_grid_forget:
  assumes "transforms_read_amplitudes E"
  shows "o_grids (fold (\<lambda>f. compute_grid E f s c) flds (oc\<lparr>o_grids := g\<rparr>)) fld =
           (if fld \<in> set flds then o_grids (fold (\<lambda>f. compute_grid E f s c) flds oc) fld
            else g fld)"
proof (induction flds arbitrary: oc g)
  case Nil
  show ?case by simp
next
  case (Cons a flds)
  let ?v = "ocean_compute E a oc s c"
  have "o_grids (fold (\<lambda>f. compute_grid E f s c) (a # flds) (oc\<lparr>o_grids := g\<rparr>)) fld =
          o_grids (fold (\<lambda>f. compute_grid E f s c) flds
                     ((compute_grid E a s c oc)\<lparr>o_grids := g(a \<mapsto> ?v)\<rparr>)) fld"
    by (simp add: compute_grid_forget [OF assms])
  also have "\<dots> =
      (if fld \<in> set flds
       then o_grids (fold (\<lambda>f. compute_grid E f s c) flds (compute_grid E a s c oc)) fld
       else (g(a \<mapsto> ?v)) fld)"
    by (rule Cons.IH)
  also have "\<dots> =
      (if fld \<in> set (a # flds)
       then o_grids (fold (\<lambda>f. compute_grid E f s c) (a # flds) oc) fld
       else g fld)"
  proof (cases "fld \<in> set flds")
    case True
    then show ?thesis by simp
  next
    case False
    have "o_grids (fold (\<lambda>f. compute_grid E f s c) flds (compute_grid E a s c oc)) a =
            Some ?v" if "fld = a"
      using False that by (simp add: fold_compute_grid_untouched) (simp add: compute_grid_def)
    with False show ?thesis by auto
  qed
  finally show ?case .
qed

lemma simulate_transforms_simulate:
  "simulate_transforms (BKE_ocean_simulate E oc t s c) = simulate_transforms oc"
  by (subst BKE_ocean_simulate_shape) (simp add: simulate_transforms_def)

lemma BKE_ocean_simulate_forget:
  assumes "transforms_read_amplitudes E"
  shows "BKE_ocean_simulate E (BKE_ocean_simulate E oc ta sa ca) t s c =
         BKE_ocean_simulate E oc t s c"
proof -
  define T where "T = simulate_transforms oc"
  define o1 where "o1 = simulate_htilda E oc t"
  define G1 where "G1 = o_grids (BKE_ocean_simulate E oc ta sa ca)"
  define cg where "cg = (\<lambda>f. compute_grid E f s c)"
  have L: "BKE_ocean_simulate E (BKE_ocean_simulate E oc ta sa ca) t s c =
             fold cg T (o1\<lparr>o_grids := G1\<rparr>)"
    unfolding BKE_ocean_simulate_folds [of E "BKE_ocean_simulate E oc ta sa ca"]
      simulate_transforms_simulate simulate_htilda_forget [OF assms]
      T_def o1_def G1_def cg_def ..
  have R: "BKE_ocean_simulate E oc t s c = fold cg T o1"
    unfolding T_def o1_def cg_def by (rule BKE_ocean_simulate_folds)
  have out: "G1 fld = o_grids o1 fld" if "fld \<notin> set T" for fld
  proof -
    have "G1 fld = o_grids oc fld"
      unfolding G1_def BKE_ocean_simulate_transforms
      using that by (simp add: fold_compute_grid_untouched T_def)
    then show ?thesis by (simp add: o1_def simulate_htilda_def)
  qed
  have g: "o_grids (fold cg T (o1\<lparr>o_grids := G1\<rparr>)) fld = o_grids (fold cg T o1) fld" for fld
  proof (cases "fld \<in> set T")
    case True
    then show ?thesis unfolding cg_def by (simp add: fold_compute_grid_forget [OF assms])
  next
    case False
    then show ?thesis
      unfolding cg_def
      by (simp add: fold_compute_grid_forget [OF assms] fold_compute_grid_untouched out)
  qed
  have "fold cg T (o1\<lparr>o_grids := G1\<rparr>) =
          (o1\<lparr>o_grids := G1\<rparr>)\<lparr>o_grids := o_grids (fold cg T (o1\<lparr>o_grids := G1\<rparr>))\<rparr>"
    unfolding cg_def by (rule fold_compute_grid_shape)
  also have "\<dots> = o1\<lparr>o_grids := o_grids (fold cg T o1)\<rparr>"
    using g by (simp add: fun_eq_iff)
  also have "\<dots> = fold cg T o1"
    unfolding cg_def by (rule fold_compute_grid_shape [symmetric])
  finally show ?thesis unfolding L R .
qed

lemma fold_bake_frame_forget:
  assumes "transforms_read_amplitudes E"
  shows "BKE_ocean_simulate E (fst (fold (bake_frame E time_of s c) fs (oc, och))) t s' c' =
         BKE_ocean_simulate E oc t s' c'"
proof (induction fs arbitrary: oc och)
  case Nil
  show ?case by simp
next
  case (Cons a fs)
  show ?case
    by (simp add: bake_frame_split Cons.IH BKE_ocean_simulate_forget [OF assms])
qed

lemma bake_record_samples:
  assumes "x < rx" and "y < ry"
  shows "rec_disp (bake_record E (BKE_ocean_simulate E oc t s c) rx ry) ! (y * rx + x) =
           disp (live_sample E oc t s c (int x) (int y)) \<and>
         rec_normal (bake_record E (BKE_ocean_simulate E oc t s c) rx ry) ! (y * rx + x) =
           normal (live_sample E oc t s c (int x) (int y)) \<and>
         rec_foam (bake_record E (BKE_ocean_simulate E oc t s c) rx ry) ! (y * rx + x) =
           foam (live_sample E oc t s c (int x) (int y))"
  by (simp add: bake_record_def live_sample_def grid_samples_nth [OF assms])

text \<open>
  C6. For every frame \<open>f\<close> of the baked range, loading \<open>f\<close> from the cache succeeds and
  yields, at every grid point and in every channel, the value that a live step at the
  time of \<open>f\<close> followed by an evaluation of that grid point gives on the ocean as the
  frames before \<open>f\<close> left it. When the transforms read the amplitudes only, that is also
  the value of a live step and evaluation on the ocean the bake started from.
  The values are equal, so they are equal within any tolerance.
\<close>

theorem bake_then_load_is_live:
  assumes "bakestart \<le> f" and "f \<le> bakeend"
  shows "load_frame (snd (BKE_ocean_bake E time_of s c bakestart bakeend (oc, och))) f =
           Inr (bake_record E
                  (BKE_ocean_simulate E
                     (fst (BKE_ocean_bake E time_of s c bakestart (f - 1) (oc, och)))
                     (time_of f) s c)
                  (och_M och) (och_N och)) \<and>
         (\<forall>x<och_M och. \<forall>y<och_N och.
            rec_disp (bake_record E
                  (BKE_ocean_simulate E
                     (fst (BKE_ocean_bake E time_of s c bakestart (f - 1) (oc, och)))
                     (time_of f) s c)
                  (och_M och) (och_N och)) ! (y * och_M och + x) =
              disp (live_sample E
                     (fst (BKE_ocean_bake E time_of s c bakestart (f - 1) (oc, och)))
                     (time_of f) s c (int x) (int y)) \<and>
            rec_normal (bake_record E
                  (BKE_ocean_simulate E
                     (fst (BKE_ocean_bake E time_of s c bakestart (f - 1) (oc, och)))
                     (time_of f) s c)
                  (och_M och) (och_N och)) ! (y * och_M och + x) =
              normal (live_sample E
                     (fst (BKE_ocean_bake E time_of s c bakestart (f - 1) (oc, och)))
                     (time_of f) s c (int x) (int y)) \<and>
            rec_foam (bake_record E
                  (BKE_ocean_simulate E
                     (fst (BKE_ocean_bake E time_of s c bakestart (f - 1) (oc, och)))
                     (time_of f) s c)
                  (och_M och) (och_N och)) ! (y * och_M och + x) =
              foam (live_sample E
                     (fst (BKE_ocean_bake E time_of s c bakestart (f - 1) (oc, och)))
                     (time_of f) s c (int x) (int y))) \<and>
         (transforms_read_amplitudes E \<longrightarrow>
            load_frame (snd (BKE_ocean_bake E time_of s c bakestart bakeend (oc, och))) f =
              Inr (bake_record E (BKE_ocean_simulate E oc (time_of f) s c)
                     (och_M och) (och_N och)) \<and>
            (\<forall>x<och_M och. \<forall>y<och_N och.
               rec_disp (bake_record E (BKE_ocean_simulate E oc (time_of f) s c)
                     (och_M och) (och_N och)) ! (y * och_M och + x) =
                 disp (live_sample E oc (time_of f) s c (int x) (int y)) \<and>
               rec_normal (bake_record E (BKE_ocean_simulate E oc (time_of f) s c)
                     (och_M och) (och_N och)) ! (y * och_M och + x) =
                 normal (live_sample E oc (time_of f) s c (int x) (int y)) \<and>
               rec_foam (bake_record E (BKE_ocean_simulate E oc (time_of f) s c)
                     (och_M och) (och_N och)) ! (y * och_M och + x) =
                 foam (live_sample E oc (time_of f) s c (int x) (int y))))"
proof -
  let ?ocf = "fst (BKE_ocean_bake E time_of s c bakestart (f - 1) (oc, och))"
  have 1: "load_frame (snd (BKE_ocean_bake E time_of s c bakestart bakeend (oc, och))) f =
             Inr (bake_record E (BKE_ocean_simulate E ?ocf (time_of f) s c)
                    (och_M och) (och_N och))"
    using assms by (rule BKE_ocean_bake_load)
  have 2: "\<forall>x<och_M och. \<forall>y<och_N och.
      rec_disp (bake_record E (BKE_ocean_simulate E o' (time_of f) s c)
            (och_M och) (och_N och)) ! (y * och_M och + x) =
        disp (live_sample E o' (time_of f) s c (int x) (int y)) \<and>
      rec_normal (bake_record E (BKE_ocean_simulate E o' (time_of f) s c)
            (och_M och) (och_N och)) ! (y * och_M och + x) =
        normal (live_sample E o' (time_of f) s c (int x) (int y)) \<and>
      rec_foam (bake_record E (BKE_ocean_simulate E o' (time_of f) s c)
            (och_M och) (och_N och)) ! (y * och_M och + x) =
        foam (live_sample E o' (time_of f) s c (int x) (int y))" for o'
    using bake_record_samples [of _ "och_M och" _ "och_N och" E o' "time_of f" s c] by blast
  have 3: "BKE_ocean_simulate E ?ocf (time_of f) s c = BKE_ocean_simulate E oc (time_of f) s c"
    if "transforms_read_amplitudes E"
    unfolding BKE_ocean_bake_def by (rule fold_bake_frame_forget [OF that])
  have 4: "load_frame (snd (BKE_ocean_bake E time_of s c bakestart bakeend (oc, och))) f =
             Inr (bake_record E (BKE_ocean_simulate E oc (time_of f) s c)
                    (och_M och) (och_N och))"
    if "transforms_read_amplitudes E"
    using 1 3 [OF that] by simp
  show ?thesis
    apply (intro conjI impI)
       apply (rule 1)
      apply (rule 2)
     apply (erule 4)
    apply (rule 2)
    done
qed


text \<open>The parameters of the test instance meet the contract.\<close>

lemma test_externals_read_amplitudes: "transforms_read_amplitudes test_externals"
  by (simp add: transforms_read_amplitudes_def test_externals_def)

lemma BKE_ocean_simulate_flags:
  "o_do_disp_y (BKE_ocean_simulate E oc t s c) = o_do_disp_y oc"
  "o_do_chop (BKE_ocean_simulate E oc t s c) = o_do_chop oc"
  "o_do_normals (BKE_ocean_simulate E oc t s c) = o_do_normals oc"
  "o_do_jacobian (BKE_ocean_simulate E oc t s c) = o_do_jacobian oc"
  by (subst BKE_ocean_simulate_shape, simp)+

text \<open>
  Frames 1 to 3 baked on the 4 by 4 test ocean into a 2 by 2 cache: frame 2 loads, its
  sample at \<open>x = 1\<close>, \<open>y = 1\<close> is the live displacement, and frame 4 is not baked.
\<close>

theorem bake_then_load_is_live_witness:
  "(1::int) \<le> 2 \<and> (2::int) \<le> 3 \<and> transforms_read_amplitudes test_externals \<and>
   load_frame (snd (BKE_ocean_bake test_externals real_of_int 1 1 1 3
      (BKE_ocean_init_from_modifier test_externals BKE_ocean_add test_modifier 2,
       \<lparr>och_M = 2, och_N = 2, och_frames = Map.empty\<rparr>))) 2 =
     Inr (bake_record test_externals
            (BKE_ocean_simulate test_externals
               (BKE_ocean_init_from_modifier test_externals BKE_ocean_add test_modifier 2)
               2 1 1) 2 2) \<and>
   rec_disp (bake_record test_externals
            (BKE_ocean_simulate test_externals
               (BKE_ocean_init_from_modifier test_externals BKE_ocean_add test_modifier 2)
               2 1 1) 2 2) ! 3 = (1, 1, 1) \<and>
   load_frame (snd (BKE_ocean_bake test_externals real_of_int 1 1 1 3
      (BKE_ocean_init_from_modifier test_externals BKE_ocean_add test_modifier 2,
       \<lparr>och_M = 2, och_N = 2, och_frames = Map.empty\<rparr>))) 4 = Inl NotBaked"
proof -
  let ?o = "BKE_ocean_init_from_modifier test_externals BKE_ocean_add test_modifier 2"
  let ?och = "\<lparr>och_M = 2, och_N = 2, och_frames = Map.empty\<rparr> :: OceanCache"
  have a: "(1::int) \<le> 2" and b: "(2::int) \<le> 3" by simp_all
  note R = test_externals_read_amplitudes
  note w = bake_then_load_is_live
    [OF a b, of test_externals real_of_int 1 1 ?o ?och,
     THEN conjunct2, THEN conjunct2, rule_format, OF R]
  have l: "load_frame (snd (BKE_ocean_bake test_externals real_of_int 1 1 1 3 (?o, ?och))) 2 =
             Inr (bake_record test_externals (BKE_ocean_simulate test_externals ?o 2 1 1) 2 2)"
    using w [THEN conjunct1] by simp
  have p: "rec_disp (bake_record test_externals (BKE_ocean_simulate test_externals ?o 2 1 1) 2 2)
             ! (1 * 2 + 1) = disp (live_sample test_externals ?o 2 1 1 (int 1) (int 1))"
    using w [THEN conjunct2, rule_format, of 1 1] by simp
  have h: "o_do_disp_y ?o \<noteq> 0" by (simp add: init_from_modifier_do_disp_y)
  have c: "o_do_chop ?o \<noteq> 0"
    by (simp add: init_from_modifier_do_chop short_of_bool_def test_modifier_def)
  have k: "ocean_compute test_externals fld st 1 1 = (\<lambda>idx. 1)" for fld st
    by (simp add: test_externals_def)
  have v: "disp (live_sample test_externals ?o 2 1 1 (int 1) (int 1)) = (1, 1, 1)"
    using h c
    by (simp add: live_sample_def BKE_ocean_eval_ij_def Let_def BKE_ocean_simulate_flags
        grid_at_def simulate_height_grid simulate_chop_grids k)
  have "och_frames (snd (BKE_ocean_bake test_externals real_of_int 1 1 1 3 (?o, ?och))) 4 = None"
    unfolding BKE_ocean_bake_def by (subst fold_bake_frame_other) simp_all
  then have n: "load_frame (snd (BKE_ocean_bake test_externals real_of_int 1 1 1 3 (?o, ?och))) 4 =
             Inl NotBaked"
    by (simp add: load_frame_def)
  from a b R l p v n show ?thesis by simp
qed

end
